theory Spec2Isabelle
  imports Main "HOL-Library.Word" "HOL-Library.Sublist"
begin

section \<open>The SFTP backend of restic (internal/backend/sftp/sftp.go)\<close>

text \<open>
  The backend talks to a remote server through a protocol client.  The embedding keeps the
  code of every operation as it is written and makes the remote side explicit: every call on
  the protocol client is appended to a trace, and what the server answers is given by an
  environment of oracles that may depend on all calls made so far.  A theorem that holds
  for every environment holds for every behaviour of the server.
\<close>

subsection \<open>Go errors\<close>

text \<open>
  A Go \<open>error\<close> is either nil or an error value; nil is \<open>None\<close> of \<open>err option\<close>.
  The sentinels are compared by identity in Go, so each one is a constructor of its own.
  \<open>Wrap\<close> is \<open>errors.Wrap\<close> and \<open>errors.Wrapf\<close> with the message already formatted,
  \<open>Permanent\<close> is \<open>backoff.Permanent\<close>, \<open>Errorf_w_v a b\<close> is
  \<open>fmt.Errorf("%w: %v", a, b)\<close>: only the \<open>%w\<close> operand is reachable by unwrapping, the
  \<open>%v\<close> operand is formatted into the message.
\<close>

datatype farg = S string | I int

datatype err =
    ErrNotExist
  | ErrPermission
  | EOF
  | errTooShort
  | Canceled
  | StatusError "32 word"
  | New string
  | Errorf string "farg list"
  | Wrap err string
  | Permanent err
  | Errorf_w_v err "err option"

fun Unwrap :: "err \<Rightarrow> err option" where
  "Unwrap (Wrap e m) = Some e"
| "Unwrap (Permanent e) = Some e"
| "Unwrap (Errorf_w_v a b) = Some a"
| "Unwrap e = None"

text \<open>\<open>errors.Is\<close> for a sentinel target: walk the chain of \<open>Unwrap\<close>.\<close>

fun errors_Is :: "err \<Rightarrow> err \<Rightarrow> bool" where
  "errors_Is (Wrap e m) target = (Wrap e m = target \<or> errors_Is e target)"
| "errors_Is (Permanent e) target = (Permanent e = target \<or> errors_Is e target)"
| "errors_Is (Errorf_w_v a b) target = (Errorf_w_v a b = target \<or> errors_Is a target)"
| "errors_Is e target = (e = target)"

text \<open>The chain of an error: the error itself, then what it wraps, and so on.\<close>

fun chain :: "err \<Rightarrow> err list" where
  "chain (Wrap e m) = Wrap e m # chain e"
| "chain (Permanent e) = Permanent e # chain e"
| "chain (Errorf_w_v a b) = Errorf_w_v a b # chain a"
| "chain e = [e]"

text \<open>\<open>errors.Wrap(err, msg)\<close> and \<open>backoff.Permanent(err)\<close> return nil for a nil error.\<close>

definition errors_Wrap :: "err option \<Rightarrow> string \<Rightarrow> err option" where
  "errors_Wrap e m = (case e of None \<Rightarrow> None | Some x \<Rightarrow> Some (Wrap x m))"

definition backoff_Permanent :: "err option \<Rightarrow> err option" where
  "backoff_Permanent e = (case e of None \<Rightarrow> None | Some x \<Rightarrow> Some (Permanent x))"

text \<open>The outcome of a Go function that may panic.\<close>

datatype 'a outcome = Panics | Returns 'a

subsection \<open>Configuration, layout and the backend value\<close>

record Config =
  Host :: string
  Port :: string
  User :: string
  Path :: string
  Command :: string
  Args :: string
  Connections :: nat

datatype FileType = PackFile | KeyFile | LockFile | SnapshotFile | IndexFile | ConfigFile

record Handle =
  Type :: FileType
  Name :: string

text \<open>
  The layout (package \<open>internal/backend/layout\<close>) is a collaborator defined outside
  \<open>sftp.go\<close>; its functions are parameters of the model.
\<close>

record Layout =
  Filename :: "Handle \<Rightarrow> string"
  Dirname :: "Handle \<Rightarrow> string"
  Basedir :: "FileType \<Rightarrow> string \<times> bool"
  Paths :: "string list"

record Modes =
  Dir :: nat
  File :: nat

text \<open>
  The field \<open>result\<close> is the channel fed by the goroutine that waits for the subprocess:
  \<open>None\<close> while the subprocess runs (a receive would block), \<open>Some x\<close> once it has exited,
  where \<open>x\<close> is the value the goroutine sends for ever.  The model takes the channel as
  ready at every receive after the exit; the moment between a receive and the next send of
  the goroutine is not modelled.
\<close>

record SFTP =
  p :: string
  result :: "err option option"
  posixRename :: bool
  layout :: Layout
  config :: Config
  modes :: Modes

text \<open>The goroutine of \<open>startClient\<close>: \<open>ch <- errors.Wrap(err, "ssh command exited")\<close>.\<close>

definition wait_goroutine :: "err option \<Rightarrow> err option option" where
  "wait_goroutine waitErr = Some (errors_Wrap waitErr ''ssh command exited'')"

definition clientError :: "SFTP \<Rightarrow> err option" where
  "clientError r = (case result r of Some e \<Rightarrow> backoff_Permanent e | None \<Rightarrow> None)"

subsection \<open>Error predicates\<close>

definition IsNotExist :: "err option \<Rightarrow> bool" where
  "IsNotExist e = (case e of None \<Rightarrow> False | Some x \<Rightarrow> errors_Is x ErrNotExist)"

definition IsPermanentError :: "err option \<Rightarrow> bool" where
  "IsPermanentError e =
     (IsNotExist e
      \<or> (case e of None \<Rightarrow> False | Some x \<Rightarrow> errors_Is x errTooShort)
      \<or> (case e of None \<Rightarrow> False | Some x \<Rightarrow> errors_Is x ErrPermission))"

subsection \<open>The launch command\<close>

text \<open>
  \<open>backend.SplitShellStrings\<close> is defined outside \<open>sftp.go\<close> and is a parameter
  \<open>split\<close>.  Indexing \<open>args[0]\<close> of an empty slice panics.
\<close>

definition buildSSHCommand ::
  "(string \<Rightarrow> err + string list) \<Rightarrow> Config \<Rightarrow> (err + string \<times> string list) outcome" where
  "buildSSHCommand split cfg =
     (if Command cfg \<noteq> [] then
        (case split (Command cfg) of
           Inl e \<Rightarrow> Returns (Inl e)
         | Inr args \<Rightarrow>
             if Args cfg \<noteq> [] then
               Returns (Inl (New ''cannot specify both sftp.command and sftp.args options''))
             else (case args of [] \<Rightarrow> Panics | a # as \<Rightarrow> Returns (Inr (a, as))))
      else
        (let cmd = ''ssh'';
             host = Host cfg; port = Port cfg;
             args = [host];
             args = (if port \<noteq> [] then args @ [''-p'', port] else args);
             args = (if User cfg \<noteq> [] then args @ [''-l'', User cfg] else args)
         in if Args cfg \<noteq> [] then
              (case split (Args cfg) of
                 Inl e \<Rightarrow> Returns (Inl e)
               | Inr a \<Rightarrow> Returns (Inr (cmd, (args @ a) @ [''-s'', ''sftp''])))
            else Returns (Inr (cmd, args @ [''-s'', ''sftp'']))))"

subsection \<open>The remote side\<close>

text \<open>
  Calls that leave the backend: on the protocol client, on an open remote file (named by the
  path it was opened with), and on the visitor of \<open>List\<close> (\<open>Visit name size\<close>).
\<close>

datatype call =
    OpenFile string
  | MkdirAll string
  | Mkdir string
  | Chmod string nat
  | ReadFromWithConcurrency string
  | Close string
  | Remove string
  | RemoveDirectory string
  | Rename string string
  | PosixRename string string
  | StatVFS string
  | Lstat string
  | Stat string
  | ReadDir string
  | Open string
  | Seek string int
  | Read string nat
  | Visit string int

record StatVFS =
  Frsize :: "64 word"
  Bavail :: "64 word"
  Favail :: "64 word"

text \<open>
  What the world outside the backend answers.  \<open>reply env tr c\<close> is the error of call
  \<open>c\<close> made after the calls \<open>tr\<close>; the other oracles give the value a call returns
  beside its error.  \<open>extensions\<close> is the table behind \<open>HasExtension\<close>, fixed when the
  session starts.  \<open>ctx_Err\<close> is \<open>ctx.Err()\<close>, which may change as calls are made.
  The last four fields are functions and values of other packages (\<open>path.Join\<close>,
  \<open>path.Base\<close>, \<open>util.DeriveModesFromFileInfo\<close>, \<open>util.DefaultModes\<close>); they
  are parameters.
\<close>

record env =
  reply :: "call list \<Rightarrow> call \<Rightarrow> err option"
  written :: "call list \<Rightarrow> int"
  statvfs :: "call list \<Rightarrow> StatVFS"
  lstat_size :: "call list \<Rightarrow> int"
  read_count :: "call list \<Rightarrow> nat"
  stat_mode :: "call list \<Rightarrow> nat"
  extensions :: "string \<Rightarrow> bool"
  ctx_Err :: "call list \<Rightarrow> err option"
  path_Join :: "string \<Rightarrow> string \<Rightarrow> string"
  path_Base :: "string \<Rightarrow> string"
  DeriveModesFromFileInfo :: "nat \<Rightarrow> err option \<Rightarrow> Modes"
  DefaultModes :: Modes

definition rpc :: "env \<Rightarrow> call \<Rightarrow> call list \<Rightarrow> err option \<times> call list" where
  "rpc env c tr = (reply env tr c, tr @ [c])"

subsection \<open>checkNoSpace\<close>

text \<open>\<open>sftp.ErrSSHFxFailure\<close> is the status code 4 (SSH_FX_FAILURE).\<close>

definition ErrSSHFxFailure :: "32 word" where
  "ErrSSHFxFailure = 4"

text \<open>
  The parameter \<open>size\<close> is an \<open>int64\<close>; \<open>uint64(size)\<close> keeps its 64 bits.  The product
  \<open>Frsize * Bavail\<close> is a product of \<open>uint64\<close> and wraps around.  The type assertion
  \<open>origErr.(*sftp.StatusError)\<close> looks at the error itself, not at what it wraps.
\<close>

definition uint64 :: "int \<Rightarrow> 64 word" where
  "uint64 n = word_of_int n"

definition checkNoSpace :: "env \<Rightarrow> string \<Rightarrow> int \<Rightarrow> err \<Rightarrow> call list \<Rightarrow> err \<times> call list" where
  "checkNoSpace env dir size' origErr tr =
     (let hasExt = extensions env ''statvfs@openssh.com''
      in case origErr of
           StatusError code \<Rightarrow>
             if code \<noteq> ErrSSHFxFailure \<or> \<not> hasExt then (origErr, tr)
             else
               (let fsinfo = statvfs env tr;
                    (err, tr) = rpc env (StatVFS dir) tr
                in if err \<noteq> None then (origErr, tr)
                   else if Favail fsinfo = 0 \<or> Frsize fsinfo * Bavail fsinfo < uint64 size'
                   then (Permanent (New ''sftp: no space left on device''), tr)
                   else (origErr, tr))
         | _ \<Rightarrow> (origErr, tr))"

subsection \<open>Save\<close>

text \<open>
  The deferred function of \<open>Save\<close>.  It reads the local variable \<open>err\<close> when \<open>Save\<close>
  returns; \<open>Save\<close> has an unnamed result, so a \<open>return\<close> does not assign \<open>err\<close>.
  \<open>f.Name()\<close> is the path the file was opened with.
\<close>

definition Save_deferred :: "env \<Rightarrow> string \<Rightarrow> err option \<Rightarrow> call list \<Rightarrow> call list" where
  "Save_deferred env fName err tr =
     (if err = None then tr else snd (rpc env (Remove fName) tr))"

text \<open>
  Lines 301 to 312: create the temporary file; when that fails because a directory is
  missing, create the directory and try once more.
\<close>

definition Save_OpenFile :: "env \<Rightarrow> string \<Rightarrow> string \<Rightarrow> call list \<Rightarrow> err option \<times> call list" where
  "Save_OpenFile env tmpFilename dirname tr =
     (let (err, tr) = rpc env (OpenFile tmpFilename) tr
      in if IsNotExist err then
           (let (mkdirErr, tr) = rpc env (MkdirAll dirname) tr
            in if mkdirErr \<noteq> None then (err, tr)
               else rpc env (OpenFile tmpFilename) tr)
         else (err, tr))"

text \<open>
  \<open>tempSuffix\<close> is the value of \<open>tempSuffix()\<close>, \<open>rdLength\<close> is \<open>rd.Length()\<close>.
  The returns before the \<open>defer\<close> statement (lines 315 and 323) do not run the deferred
  function; every later return does, after its result has been evaluated.
\<close>

definition Save :: "SFTP \<Rightarrow> env \<Rightarrow> string \<Rightarrow> Handle \<Rightarrow> int \<Rightarrow> call list \<Rightarrow> err option \<times> call list" where
  "Save r env tempSuffix h rdLength tr =
     (case clientError r of
        Some e \<Rightarrow> (Some e, tr)
      | None \<Rightarrow>
         (let filename = Filename (layout r) h;
              tmpFilename = filename @ ''-restic-temp-'' @ tempSuffix;
              dirname = Dirname (layout r) h;
              (err, tr) = Save_OpenFile env tmpFilename (Dirname (layout r) h) tr
          in case err of
               Some e \<Rightarrow> (Some (Wrap e (''OpenFile '' @ tmpFilename)), tr)
             | None \<Rightarrow>
                (let (err, tr) = rpc env (Chmod tmpFilename (File (modes r))) tr
                 in case err of
                      Some e \<Rightarrow> (Some (Wrap e (''Chmod '' @ tmpFilename)), tr)
                    | None \<Rightarrow>
                       (let wbytes = written env tr;
                            (err, tr) = rpc env (ReadFromWithConcurrency tmpFilename) tr
                        in case err of
                             Some e \<Rightarrow>
                               (let (_, tr) = rpc env (Close tmpFilename) tr;
                                    (e', tr) = checkNoSpace env dirname rdLength e tr;
                                    err = Some e'
                                in (errors_Wrap err (''Write '' @ tmpFilename),
                                    Save_deferred env tmpFilename err tr))
                           | None \<Rightarrow>
                               if wbytes \<noteq> rdLength then
                                 (let (_, tr) = rpc env (Close tmpFilename) tr
                                  in (Some (Errorf ''Write %v: wrote %d bytes instead of the expected %d bytes''
                                              [S tmpFilename, I wbytes, I rdLength]),
                                      Save_deferred env tmpFilename err tr))
                               else
                                 (let (err, tr) = rpc env (Close tmpFilename) tr
                                  in if err \<noteq> None then
                                       (errors_Wrap err (''Close '' @ tmpFilename),
                                        Save_deferred env tmpFilename err tr)
                                     else
                                       (let (err, tr) =
                                              (if posixRename r
                                               then rpc env (PosixRename tmpFilename filename) tr
                                               else rpc env (Rename tmpFilename filename) tr)
                                        in (errors_Wrap err (''Rename '' @ tmpFilename),
                                            Save_deferred env tmpFilename err tr)))))))"

subsection \<open>Stat and Remove\<close>

record FileInfo =
  fi_Size :: int
  fi_Name :: string

definition Stat_op :: "SFTP \<Rightarrow> env \<Rightarrow> Handle \<Rightarrow> call list \<Rightarrow> (err + FileInfo) \<times> call list" where
  "Stat_op r env h tr =
     (case clientError r of
        Some e \<Rightarrow> (Inl e, tr)
      | None \<Rightarrow>
         (let fi_size = lstat_size env tr;
              (err, tr) = rpc env (Lstat (Filename (layout r) h)) tr
          in case err of
               Some e \<Rightarrow> (Inl (Wrap e (''Lstat '' @ Filename (layout r) h)), tr)
             | None \<Rightarrow> (Inr \<lparr>fi_Size = fi_size, fi_Name = Name h\<rparr>, tr)))"

definition Remove_op :: "SFTP \<Rightarrow> env \<Rightarrow> Handle \<Rightarrow> call list \<Rightarrow> err option \<times> call list" where
  "Remove_op r env h tr =
     (case clientError r of
        Some e \<Rightarrow> (Some e, tr)
      | None \<Rightarrow>
         (let (err, tr) = rpc env (Remove (Filename (layout r) h)) tr
          in (errors_Wrap err (''Remove '' @ Filename (layout r) h), tr)))"

subsection \<open>Load\<close>

text \<open>
  The reader handed to the consumer is either the remote file itself or a
  \<open>util.LimitedReadCloser\<close> around it, whose field \<open>N\<close> counts the bytes it may still
  yield.  The position in the remote file is state of the server: a \<open>Read\<close> of the file is
  a call in the trace.
\<close>

datatype reader = LimitedReadCloser int | SftpFile

text \<open>
  \<open>Read\<close> of a buffer of \<open>n\<close> bytes on the remote file: the server gives a count (at
  most \<open>n\<close>) and an error.
\<close>

definition File_Read :: "env \<Rightarrow> string \<Rightarrow> nat \<Rightarrow> call list \<Rightarrow> (nat \<times> err option) \<times> call list" where
  "File_Read env name n tr = ((min n (read_count env tr), reply env tr (Read name n)), tr @ [Read name n])"

text \<open>
  Modelled from the spec: the source of \<open>util.LimitedReadCloser\<close> (package
  \<open>internal/backend/util\<close>) is missing.  The spec says the reader "never yields more than
  length bytes" and has a "declared remaining-byte counter"; this is \<open>io.LimitedReader\<close>:
  at \<open>N \<le> 0\<close> it reports end-of-stream without reading, otherwise it reads at most
  \<open>N\<close> bytes from the file and subtracts what it got.
\<close>

definition reader_Read :: "env \<Rightarrow> string \<Rightarrow> reader \<Rightarrow> nat \<Rightarrow> call list \<Rightarrow> (nat \<times> err option) \<times> reader \<times> call list" where
  "reader_Read env name rd n tr =
     (case rd of
        SftpFile \<Rightarrow> (let (res, tr) = File_Read env name n tr in (res, SftpFile, tr))
      | LimitedReadCloser N \<Rightarrow>
          if N \<le> 0 then ((0, Some EOF), LimitedReadCloser N, tr)
          else
            (let n = (if int n > N then nat N else n);
                 ((k, err), tr) = File_Read env name n tr
             in ((k, err), LimitedReadCloser (N - int k), tr)))"

text \<open>
  The consumer \<open>fn\<close> is a callback that gets an \<open>io.Reader\<close>: all it can do is read
  and finally return an error or nil.  \<open>DoRead n k\<close> reads into a buffer of \<open>n\<close> bytes
  and goes on with \<open>k\<close> applied to what the read returned.
\<close>

datatype consumer = Done "err option" | DoRead nat "nat \<times> err option \<Rightarrow> consumer"

primrec run_consumer :: "consumer \<Rightarrow> env \<Rightarrow> string \<Rightarrow> reader \<Rightarrow> call list \<Rightarrow> err option \<times> reader \<times> call list" where
  "run_consumer (Done e) env name rd tr = (e, rd, tr)"
| "run_consumer (DoRead n k) env name rd tr =
     (let (res, rd, tr) = reader_Read env name rd n tr
      in run_consumer (k res) env name rd tr)"

text \<open>
  The function literal that \<open>Load\<close> passes to \<open>util.DefaultLoad\<close> (lines 400 to 417).
  \<open>flag\<close> is \<open>feature.Flag.Enabled(feature.BackendErrorRedesign)\<close>.  The type assertion
  \<open>rd.(*util.LimitedReadCloser)\<close> panics on a reader that is the file itself; it is
  evaluated only when the probe returned \<open>io.EOF\<close>.
\<close>

definition Load_fn :: "env \<Rightarrow> bool \<Rightarrow> string \<Rightarrow> int \<Rightarrow> consumer \<Rightarrow> reader \<Rightarrow> call list \<Rightarrow> err option outcome \<times> call list" where
  "Load_fn env flag name length' fn rd tr =
     (if length' = 0 \<or> \<not> flag then
        (let (err, rd, tr) = run_consumer fn env name rd tr in (Returns err, tr))
      else
        (let (err, rd, tr) = run_consumer fn env name rd tr;
             ((_, rderr), rd, tr) = reader_Read env name rd 1 tr
         in if rderr = Some EOF then
              (case rd of
                 LimitedReadCloser N \<Rightarrow>
                   if N \<noteq> 0 then (Returns (Some (Errorf_w_v errTooShort err)), tr)
                   else (Returns err, tr)
               | SftpFile \<Rightarrow> (Panics, tr))
            else (Returns err, tr)))"

definition openReader :: "SFTP \<Rightarrow> env \<Rightarrow> Handle \<Rightarrow> int \<Rightarrow> int \<Rightarrow> call list \<Rightarrow> (err + reader) \<times> call list" where
  "openReader r env h length' offset tr =
     (let (err, tr) = rpc env (Open (Filename (layout r) h)) tr
      in case err of
           Some e \<Rightarrow> (Inl (Wrap e (''Open '' @ Filename (layout r) h)), tr)
         | None \<Rightarrow>
            (let (err, tr) = (if offset > 0 then rpc env (Seek (Filename (layout r) h) offset) tr
                              else (None, tr))
             in case err of
                  Some e \<Rightarrow>
                    (let (_, tr) = rpc env (Close (Filename (layout r) h)) tr
                     in (Inl (Wrap e (''Seek '' @ Filename (layout r) h)), tr))
                | None \<Rightarrow>
                    if length' > 0 then (Inr (LimitedReadCloser length'), tr)
                    else (Inr SftpFile, tr)))"

text \<open>
  Modelled from the spec: the source of \<open>util.DefaultLoad\<close> (package
  \<open>internal/backend/util\<close>) is missing.  The spec says that Load "opens the target path
  for reading" and then "invokes the consumer with the (possibly length-bounded) reader";
  what the callback returns is what Load returns.  Nothing is said about closing the
  reader, and no such call is modelled.
\<close>

definition DefaultLoad ::
  "(call list \<Rightarrow> (err + reader) \<times> call list) \<Rightarrow> (reader \<Rightarrow> call list \<Rightarrow> err option outcome \<times> call list)
   \<Rightarrow> call list \<Rightarrow> err option outcome \<times> call list" where
  "DefaultLoad openRd fn tr =
     (let (rd, tr) = openRd tr
      in case rd of
           Inl e \<Rightarrow> (Returns (Some e), tr)
         | Inr rd \<Rightarrow> fn rd tr)"

definition Load :: "SFTP \<Rightarrow> env \<Rightarrow> bool \<Rightarrow> Handle \<Rightarrow> int \<Rightarrow> int \<Rightarrow> consumer \<Rightarrow> call list \<Rightarrow> err option outcome \<times> call list" where
  "Load r env flag h length' offset fn tr =
     (case clientError r of
        Some e \<Rightarrow> (Returns (Some e), tr)
      | None \<Rightarrow>
          DefaultLoad (openReader r env h length' offset)
            (Load_fn env flag (Filename (layout r) h) length' fn) tr)"

subsection \<open>What the server lists\<close>

text \<open>
  The directory tree that the server shows to \<open>ReadDir\<close>: an entry is a regular file
  (name and size), something that is neither a regular file nor a directory, or a
  directory together with what \<open>ReadDir\<close> returns for it when the walk gets there: an
  error or its entries.
\<close>

datatype rnode = RFile string int | ROther string | RDir string listing
  and listing = ReadDirErr err | Entries "rnode list"

fun fi_name :: "rnode \<Rightarrow> string" where
  "fi_name (RFile n sz) = n"
| "fi_name (ROther n) = n"
| "fi_name (RDir n l) = n"

subsection \<open>List\<close>

text \<open>
  \<open>c.Walk\<close> is the walker of package \<open>github.com/kr/fs\<close> over the protocol client.  It
  starts with the result of \<open>Lstat(root)\<close> on its stack.  \<open>Step\<close> first reads the
  current item's directory when it is to descend (pushing the entries, or the item itself
  with the error of \<open>ReadDir\<close>), then pops the next item.  The head of \<open>stack\<close> is the top.
\<close>

datatype item = Item (i_path: string) (i_info: "rnode option") (i_err: "err option")

text \<open>
  The info of an item is nil only when \<open>Lstat\<close> of the root failed, and then its error is
  set; \<open>Step\<close> and \<open>List\<close> look at the info only after they have found the error to
  be nil.  On nil the three functions below give a default that is never used.
\<close>

record Walker =
  stack :: "item list"
  cur :: item
  descend :: bool

fun IsDir :: "rnode option \<Rightarrow> bool" where
  "IsDir (Some (RDir n l)) = True"
| "IsDir _ = False"

fun IsRegular :: "rnode option \<Rightarrow> bool" where
  "IsRegular (Some (RFile n sz)) = True"
| "IsRegular _ = False"

fun Size :: "rnode option \<Rightarrow> int" where
  "Size (Some (RFile n sz)) = sz"
| "Size _ = 0"

definition Walk :: "string \<Rightarrow> err + rnode \<Rightarrow> call list \<Rightarrow> Walker \<times> call list" where
  "Walk root lst tr =
     (\<lparr>stack = [case lst of Inl e \<Rightarrow> Item root None (Some e) | Inr info \<Rightarrow> Item root (Some info) None],
       cur = Item [] None None, descend = False\<rparr>,
      tr @ [Lstat root])"

definition Step :: "env \<Rightarrow> Walker \<Rightarrow> call list \<Rightarrow> bool \<times> Walker \<times> call list" where
  "Step env w tr =
     (let (w, tr) =
            (if descend w \<and> i_err (cur w) = None \<and> IsDir (i_info (cur w)) then
               (case i_info (cur w) of
                  Some (RDir n (ReadDirErr e)) \<Rightarrow>
                    (w\<lparr>stack := Item (i_path (cur w)) (i_info (cur w)) (Some e) # stack w\<rparr>,
                     tr @ [ReadDir (i_path (cur w))])
                | Some (RDir n (Entries list)) \<Rightarrow>
                    (w\<lparr>stack := map (\<lambda>fi. Item (path_Join env (i_path (cur w)) (fi_name fi)) (Some fi) None) list
                                  @ stack w\<rparr>,
                     tr @ [ReadDir (i_path (cur w))])
                | _ \<Rightarrow> (w, tr))
             else (w, tr))
      in case stack w of
           [] \<Rightarrow> (False, w, tr)
         | i # rest \<Rightarrow> (True, w\<lparr>cur := i, stack := rest, descend := True\<rparr>, tr))"

definition SkipDir :: "Walker \<Rightarrow> Walker" where
  "SkipDir w = w\<lparr>descend := False\<rparr>"

text \<open>
  The loop of \<open>List\<close> (lines 475 to 522).  The first argument bounds the number of
  iterations; \<open>None\<close> means that the bound was reached.  The visitor \<open>fn\<close> is part of
  the world: its result for \<open>rfi\<close> is the reply to \<open>Visit (Name rfi) (Size rfi)\<close>.
\<close>

fun List_loop :: "nat \<Rightarrow> env \<Rightarrow> string \<Rightarrow> bool \<Rightarrow> Walker \<Rightarrow> call list \<Rightarrow> (err option \<times> call list) option" where
  "List_loop 0 env basedir subdirs walker tr = None"
| "List_loop (Suc k) env basedir subdirs walker tr =
     (let (ok, walker, tr) = Step env walker tr
      in if \<not> ok then Some (ctx_Err env tr, tr)
         else if i_err (cur walker) \<noteq> None then
           (if IsNotExist (i_err (cur walker)) then Some (None, tr)
            else Some (errors_Wrap (i_err (cur walker)) (''Walk '' @ basedir), tr))
         else if i_path (cur walker) = basedir then List_loop k env basedir subdirs walker tr
         else if IsDir (i_info (cur walker)) \<and> \<not> subdirs then
           List_loop k env basedir subdirs (SkipDir walker) tr
         else if \<not> IsRegular (i_info (cur walker)) then List_loop k env basedir subdirs walker tr
         else
           (let rfi = \<lparr>fi_Size = Size (i_info (cur walker)),
                       fi_Name = path_Base env (i_path (cur walker))\<rparr>
            in if ctx_Err env tr \<noteq> None then Some (ctx_Err env tr, tr)
               else
                 (let (err, tr) = rpc env (Visit (fi_Name rfi) (fi_Size rfi)) tr
                  in if err \<noteq> None then Some (err, tr)
                     else if ctx_Err env tr \<noteq> None then Some (ctx_Err env tr, tr)
                     else List_loop k env basedir subdirs walker tr)))"

text \<open>\<open>lst\<close> is what \<open>Lstat\<close> of the base directory returns.\<close>

definition List_op :: "nat \<Rightarrow> SFTP \<Rightarrow> env \<Rightarrow> FileType \<Rightarrow> err + rnode \<Rightarrow> call list \<Rightarrow> (err option \<times> call list) option" where
  "List_op fuel r env t lst tr =
     (case clientError r of
        Some e \<Rightarrow> Some (Some e, tr)
      | None \<Rightarrow>
          (let (basedir, subdirs) = Basedir (layout r) t;
               (walker, tr) = Walk basedir lst tr
           in List_loop fuel env basedir subdirs walker tr))"

subsection \<open>Delete\<close>

text \<open>
  \<open>deleteRecursive\<close> reads the directory \<open>name\<close>; \<open>l\<close> is what the server returns for
  it.  \<open>deleteRecursive_loop\<close> is its \<open>for\<close> loop over the entries.
\<close>

fun deleteRecursive :: "env \<Rightarrow> string \<Rightarrow> listing \<Rightarrow> call list \<Rightarrow> err option \<times> call list"
  and deleteRecursive_loop :: "env \<Rightarrow> string \<Rightarrow> rnode list \<Rightarrow> call list \<Rightarrow> err option \<times> call list" where
  "deleteRecursive env name (ReadDirErr e) tr =
     (Some (Wrap e (''ReadDir '' @ name)), tr @ [ReadDir name])"
| "deleteRecursive env name (Entries entries) tr =
     deleteRecursive_loop env name entries (tr @ [ReadDir name])"
| "deleteRecursive_loop env name [] tr = (None, tr)"
| "deleteRecursive_loop env name (fi # entries) tr =
     (if ctx_Err env tr \<noteq> None then (ctx_Err env tr, tr)
      else
        (let itemName = path_Join env name (fi_name fi)
         in case fi of
              RDir n l \<Rightarrow>
                (let (err, tr) = deleteRecursive env itemName l tr
                 in if err \<noteq> None then (err, tr)
                    else
                      (let (err, tr) = rpc env (RemoveDirectory itemName) tr
                       in if err \<noteq> None then (errors_Wrap err (''RemoveDirectory '' @ itemName), tr)
                          else deleteRecursive_loop env name entries tr))
            | _ \<Rightarrow>
                (let (err, tr) = rpc env (Remove itemName) tr
                 in if err \<noteq> None then (errors_Wrap err (''Remove '' @ itemName), tr)
                    else deleteRecursive_loop env name entries tr)))"

text \<open>\<open>root\<close> is what the server lists under \<open>r.p\<close>.\<close>

definition Delete :: "SFTP \<Rightarrow> env \<Rightarrow> listing \<Rightarrow> call list \<Rightarrow> err option \<times> call list" where
  "Delete r env root tr = deleteRecursive env (p r) root tr"

subsection \<open>Create\<close>

text \<open>
  \<open>mkdirAllDataSubdirs\<close> starts one goroutine for every directory of the layout, at
  most \<open>nconn\<close> at a time, and returns the first error that one of them returned.  The
  model runs them one after the other in the order of \<open>Paths\<close>, which is one of the
  schedules; a goroutine that fails does not stop the others.
\<close>

fun mkdirAllDataSubdirs :: "env \<Rightarrow> string list \<Rightarrow> call list \<Rightarrow> err option \<times> call list" where
  "mkdirAllDataSubdirs env [] tr = (None, tr)"
| "mkdirAllDataSubdirs env (d # ds) tr =
     (let (err, tr) = rpc env (Mkdir d) tr;
          (res, tr) =
            (if err = None then (None, tr)
             else (let (err, tr) = rpc env (MkdirAll d) tr
                   in (errors_Wrap err (''MkdirAll '' @ d), tr)));
          (rest, tr) = mkdirAllDataSubdirs env ds tr
      in (case res of Some e \<Rightarrow> Some e | None \<Rightarrow> rest, tr))"

definition ConfigHandle :: Handle where
  "ConfigHandle = \<lparr>Type = ConfigFile, Name = []\<rparr>"

text \<open>The function \<open>open\<close> of the source; it never fails.\<close>

definition open' :: "SFTP \<Rightarrow> Config \<Rightarrow> env \<Rightarrow> call list \<Rightarrow> SFTP \<times> call list" where
  "open' sftp cfg env tr =
     (let fi = stat_mode env tr;
          (err, tr) = rpc env (Stat (Filename (layout sftp) ConfigHandle)) tr;
          m = DeriveModesFromFileInfo env fi err
      in (sftp\<lparr>config := cfg, p := Path cfg, modes := m\<rparr>, tr))"

text \<open>
  \<open>started\<close> is what \<open>startClient(cfg)\<close> returned: an error, or the backend value with
  its session (starting a subprocess is outside the model).
\<close>

definition Create :: "err + SFTP \<Rightarrow> env \<Rightarrow> Config \<Rightarrow> call list \<Rightarrow> (err + SFTP) \<times> call list" where
  "Create started env cfg tr =
     (case started of
        Inl e \<Rightarrow> (Inl e, tr)
      | Inr sftp \<Rightarrow>
         (let sftp = sftp\<lparr>modes := DefaultModes env\<rparr>;
              (err, tr) = rpc env (Lstat (Filename (layout sftp) ConfigHandle)) tr
          in if err = None then (Inl (New ''config file already exists''), tr)
             else
               (let (err, tr) = mkdirAllDataSubdirs env (Paths (layout sftp)) tr
                in case err of
                     Some e \<Rightarrow> (Inl e, tr)
                   | None \<Rightarrow> (let (sftp, tr) = open' sftp cfg env tr in (Inr sftp, tr)))))"

subsection \<open>Vocabulary of the properties\<close>

fun is_rename :: "call \<Rightarrow> bool" where
  "is_rename (Rename a b) = True"
| "is_rename (PosixRename a b) = True"
| "is_rename c = False"

text \<open>The calls of a run: what it appended to the trace it started with.\<close>

definition new_calls :: "call list \<Rightarrow> call list \<Rightarrow> call list" where
  "new_calls tr tr' = drop (length tr) tr'"

text \<open>The rename that \<open>Save\<close> issues at lines 360 to 364.\<close>

definition Save_rename :: "SFTP \<Rightarrow> string \<Rightarrow> string \<Rightarrow> call" where
  "Save_rename r tmpFilename filename =
     (if posixRename r then PosixRename tmpFilename filename else Rename tmpFilename filename)"







text \<open>
  A bound on the iterations that the loop of \<open>List\<close> still has to make: every item on
  the stack of the walker counts one, and a directory that is still to be read counts in
  addition what reading it will push (its entries, or itself once more with the error).
\<close>

fun wnode :: "rnode \<Rightarrow> nat" and wlisting :: "listing \<Rightarrow> nat" and wentries :: "rnode list \<Rightarrow> nat" where
  "wnode (RFile n sz) = 1"
| "wnode (ROther n) = 1"
| "wnode (RDir n l) = Suc (wlisting l)"
| "wlisting (ReadDirErr e) = 1"
| "wlisting (Entries es) = wentries es"
| "wentries [] = 0"
| "wentries (x # xs) = wnode x + wentries xs"

fun witem :: "item \<Rightarrow> nat" where
  "witem (Item path (Some info) None) = wnode info"
| "witem i = 1"

definition pending :: "Walker \<Rightarrow> nat" where
  "pending w = (if descend w \<and> i_err (cur w) = None \<and> IsDir (i_info (cur w))
                then witem (cur w) - 1 else 0)"

definition steps_left :: "Walker \<Rightarrow> nat" where
  "steps_left w = sum_list (map witem (stack w)) + pending w"

subsection \<open>Concrete inputs\<close>

text \<open>A table of two strings stands for the shell-word splitter.\<close>

definition example_split :: "string \<Rightarrow> err + string list" where
  "example_split s =
     (if s = ''ssh -v backup@host -s sftp'' then Inr [''ssh'', ''-v'', ''backup@host'', ''-s'', ''sftp'']
      else if s = ''-o BatchMode=yes'' then Inr [''-o'', ''BatchMode=yes'']
      else Inl (New ''command string is empty''))"

definition cfg_default :: Config where
  "cfg_default = \<lparr>Host = ''host'', Port = ''2222'', User = ''backup'', Path = ''/repo'',
                   Command = [], Args = ''-o BatchMode=yes'', Connections = 5\<rparr>"

definition cfg_command :: Config where
  "cfg_command = cfg_default\<lparr>Command := ''ssh -v backup@host -s sftp'', Args := []\<rparr>"

definition cfg_both :: Config where
  "cfg_both = cfg_default\<lparr>Command := ''ssh -v backup@host -s sftp''\<rparr>"

text \<open>A store under \<open>/repo\<close> with a flat data directory, and a backend whose subprocess runs.\<close>

definition example_layout :: Layout where
  "example_layout =
     \<lparr>Filename = (\<lambda>h. if Type h = ConfigFile then ''/repo/config'' else ''/repo/data/'' @ Name h),
      Dirname = (\<lambda>h. if Type h = ConfigFile then ''/repo'' else ''/repo/data''),
      Basedir = (\<lambda>t. (''/repo/data'', True)),
      Paths = [''/repo'', ''/repo/data'']\<rparr>"

definition example_backend :: SFTP where
  "example_backend =
     \<lparr>p = ''/repo'', result = None, posixRename = True, layout = example_layout,
      config = cfg_default, modes = \<lparr>Dir = 448, File = 384\<rparr>\<rparr>"

text \<open>The same backend after its subprocess has exited with status 255.\<close>

definition exited_backend :: SFTP where
  "exited_backend = example_backend\<lparr>result := wait_goroutine (Some (New ''exit status 255''))\<rparr>"

definition example_handle :: Handle where
  "example_handle = \<lparr>Type = PackFile, Name = ''abc''\<rparr>"

text \<open>A world in which every call succeeds and every write takes 5 bytes.\<close>

definition env_ok :: env where
  "env_ok =
     \<lparr>reply = (\<lambda>tr c. None),
      written = (\<lambda>tr. 5),
      statvfs = (\<lambda>tr. \<lparr>Frsize = 4096, Bavail = 1000, Favail = 1000\<rparr>),
      lstat_size = (\<lambda>tr. 5),
      read_count = (\<lambda>tr. 5),
      stat_mode = (\<lambda>tr. 384),
      extensions = (\<lambda>s. s = ''posix-rename@openssh.com'' \<or> s = ''statvfs@openssh.com''),
      ctx_Err = (\<lambda>tr. None),
      path_Join = (\<lambda>a b. a @ ''/'' @ b),
      path_Base = (\<lambda>p. rev (takeWhile (\<lambda>c. c \<noteq> CHR ''/'') (rev p))),
      DeriveModesFromFileInfo = (\<lambda>m e. \<lparr>Dir = 448, File = 384\<rparr>),
      DefaultModes = \<lparr>Dir = 448, File = 384\<rparr>\<rparr>"

text \<open>Worlds in which one call fails.\<close>

definition env_failing :: "call \<Rightarrow> err \<Rightarrow> env" where
  "env_failing c e = env_ok\<lparr>reply := (\<lambda>tr c'. if c' = c then Some e else None)\<rparr>"

text \<open>A full disk: writes fail with the generic status, no block is available.\<close>

definition env_full :: env where
  "env_full =
     env_ok\<lparr>reply := (\<lambda>tr c. case c of ReadFromWithConcurrency n \<Rightarrow> Some (StatusError 4) | _ \<Rightarrow> None),
            statvfs := (\<lambda>tr. \<lparr>Frsize = 4096, Bavail = 0, Favail = 1000\<rparr>)\<rparr>"

text \<open>
  A very large volume on which a write fails with the generic status for another reason:
  \<open>2 ^ 52\<close> blocks of 4096 bytes are available, \<open>2 ^ 64\<close> bytes in all, and 1000 inodes.
\<close>

definition env_huge :: env where
  "env_huge = env_full\<lparr>statvfs := (\<lambda>tr. \<lparr>Frsize = 4096, Bavail = 2 ^ 52, Favail = 1000\<rparr>)\<rparr>"

text \<open>
  A remote file of 3 bytes: the first read after \<open>Open\<close> yields them, every later read
  reports end-of-stream.  The consumer \<open>read_once\<close> reads once into a buffer of 5 bytes
  and returns nil.
\<close>

definition env_short :: env where
  "env_short =
     env_ok\<lparr>read_count := (\<lambda>tr. if tr = [Open ''/repo/data/abc''] then 3 else 0),
            reply := (\<lambda>tr c. if tr \<noteq> [] \<and> tr \<noteq> [Open ''/repo/data/abc''] then Some EOF else None)\<rparr>"

definition read_once :: consumer where
  "read_once = DoRead 5 (\<lambda>res. Done None)"

text \<open>
  A data directory with two files and, between them, a subdirectory that has vanished by
  the time the walk reads it.
\<close>

definition vanished_subdir :: "err + rnode" where
  "vanished_subdir =
     Inr (RDir ''data'' (Entries [RFile ''ab'' 5, RDir ''00'' (ReadDirErr ErrNotExist), RFile ''cd'' 7]))"

text \<open>The same data directory with the vanished subdirectory listed before the two files.\<close>

definition vanished_first :: "err + rnode" where
  "vanished_first =
     Inr (RDir ''data'' (Entries [RDir ''00'' (ReadDirErr ErrNotExist), RFile ''ab'' 5, RFile ''cd'' 7]))"




section \<open>Properties\<close>

subsection \<open>Facts about the concrete inputs\<close>

lemma example_clientError: "clientError example_backend = None"
  by (simp add: clientError_def example_backend_def)

lemma example_tmp:
  "''/repo/data/abc-restic-temp-00ff'' = Filename (layout example_backend) example_handle @ ''-restic-temp-'' @ ''00ff''"
  by (simp add: example_backend_def example_layout_def example_handle_def)

lemma example_Dirname: "Dirname (layout example_backend) example_handle = ''/repo/data''"
  by (simp add: example_backend_def example_layout_def example_handle_def)

lemma example_Filename: "Filename (layout example_backend) example_handle = ''/repo/data/abc''"
  by (simp add: example_backend_def example_layout_def example_handle_def)

lemma example_mode: "File (modes example_backend) = 384"
  by (simp add: example_backend_def)

lemma example_posix: "posixRename example_backend"
  by (simp add: example_backend_def)

lemma reply_env_failing: "reply (env_failing c e) tr c' = (if c' = c then Some e else None)"
  by (simp add: env_failing_def)

lemma written_env_failing: "written (env_failing c e) tr = 5"
  by (simp add: env_failing_def env_ok_def)

lemma Save_OpenFile_ok:
  "reply env tr (OpenFile tmp) = None \<Longrightarrow> Save_OpenFile env tmp d tr = (None, tr @ [OpenFile tmp])"
  by (simp add: Save_OpenFile_def rpc_def IsNotExist_def)

subsection \<open>Error classification\<close>

lemma errors_Is_chain: "errors_Is x t = (t \<in> set (chain x))"
  by (induction x) auto

text \<open>
  Claim C5.  For every error value, \<open>IsPermanentError\<close> is true if and only if the error
  matches not-found, the too-short sentinel or permission-denied, that is, if one of these
  three sentinels is in the chain of the error; it is false for nil and for every other
  error.
\<close>

theorem IsPermanentError_iff:
  "IsPermanentError e =
     (case e of
        None \<Rightarrow> False
      | Some x \<Rightarrow> ErrNotExist \<in> set (chain x) \<or> errTooShort \<in> set (chain x)
                  \<or> ErrPermission \<in> set (chain x))"
  by (cases e) (simp_all add: IsPermanentError_def IsNotExist_def errors_Is_chain)

text \<open>
  A wrapped not-found error is permanent.  An error made permanent for the retry layer by
  \<open>backoff.Permanent\<close> (no space left, the exit of the subprocess) is among the other
  errors, and so is the generic failure status.
\<close>

theorem IsPermanentError_iff_witness:
  "IsPermanentError (Some (Wrap ErrNotExist ''Lstat /repo/data/abc'')) = True
   \<and> IsPermanentError (Some (Errorf_w_v errTooShort None)) = True
   \<and> IsPermanentError (Some (Permanent (New ''sftp: no space left on device''))) = False
   \<and> IsPermanentError (Some (StatusError 4)) = False
   \<and> IsPermanentError None = False"
  using IsPermanentError_iff [of "Some (Wrap ErrNotExist ''Lstat /repo/data/abc'')"]
        IsPermanentError_iff [of "Some (Errorf_w_v errTooShort None)"]
        IsPermanentError_iff [of "Some (Permanent (New ''sftp: no space left on device''))"]
        IsPermanentError_iff [of "Some (StatusError 4)"]
        IsPermanentError_iff [of None]
  by simp

subsection \<open>No space left\<close>

text \<open>
  What \<open>checkNoSpace\<close> returns, case by case: the permanent no-space error when the
  error is a status error with the code for a generic failure, the server has the
  extension \<open>statvfs@openssh.com\<close>, the query for the directory succeeds, and it reports
  no available inodes or a product of fragment size and available blocks, computed in 64
  bits as the code does, below the size of the write; the original error in every other
  case, also when the query fails.
\<close>

lemma checkNoSpace_cases:
  "fst (checkNoSpace env dir sz origErr tr) =
     (if origErr = StatusError ErrSSHFxFailure \<and> extensions env ''statvfs@openssh.com''
         \<and> reply env tr (StatVFS dir) = None
         \<and> (Favail (statvfs env tr) = 0
              \<or> Frsize (statvfs env tr) * Bavail (statvfs env tr) < uint64 sz)
      then Permanent (New ''sftp: no space left on device'') else origErr)"
  by (cases origErr) (auto simp: checkNoSpace_def rpc_def Let_def)

text \<open>
  The comparison of line 386 in numbers: the product is taken modulo \<open>2 ^ 64\<close>.  As long
  as the product does not exceed 64 bits and the size is not negative, it is the
  comparison of the free-byte budget with the size, and \<open>checkNoSpace\<close> does what the
  claim says.
\<close>

lemma unat_uint64: "0 \<le> sz \<Longrightarrow> sz < 2 ^ 63 \<Longrightarrow> unat (uint64 sz) = nat sz"
  unfolding uint64_def
  by (simp add: unat_eq_nat_uint uint_word_of_int take_bit_int_eq_self)

lemma wrapped_product:
  fixes a b :: "64 word"
  assumes "0 \<le> sz" and "sz < 2 ^ 63"
  shows "(a * b < uint64 sz) = ((unat a * unat b) mod 2 ^ 64 < nat sz)"
  unfolding word_less_nat_alt unat_uint64 [OF assms]
  by (simp add: unat_word_ariths)

lemma free_budget_no_overflow:
  fixes a b :: "64 word"
  assumes "unat a * unat b < 2 ^ 64" and "0 \<le> sz" and "sz < 2 ^ 63"
  shows "(a * b < uint64 sz) = (int (unat a * unat b) < sz)"
  unfolding wrapped_product [OF assms(2,3)] using assms by (simp add: zless_nat_eq_int_zless)

lemma checkNoSpace_in_range:
  assumes "unat (Frsize (statvfs env tr)) * unat (Bavail (statvfs env tr)) < 2 ^ 64"
    and "0 \<le> sz" and "sz < 2 ^ 63"
  shows "fst (checkNoSpace env dir sz origErr tr) =
     (if origErr = StatusError ErrSSHFxFailure \<and> extensions env ''statvfs@openssh.com''
         \<and> reply env tr (StatVFS dir) = None
         \<and> (Favail (statvfs env tr) = 0
              \<or> int (unat (Frsize (statvfs env tr)) * unat (Bavail (statvfs env tr))) < sz)
      then Permanent (New ''sftp: no space left on device'') else origErr)"
  unfolding checkNoSpace_cases free_budget_no_overflow [OF assms] ..

lemma huge_statvfs: "statvfs env_huge tr = \<lparr>Frsize = 4096, Bavail = 2 ^ 52, Favail = 1000\<rparr>"
  and huge_ext: "extensions env_huge ''statvfs@openssh.com''"
  and huge_reply: "reply env_huge tr (StatVFS d) = None"
  by (simp_all add: env_huge_def env_full_def env_ok_def)

text \<open>
  Claim C4 says that a failed write is reclassified only if no inode is available or the
  free-byte budget, fragment size times available blocks, is smaller than the size of the
  write.  \<open>checkNoSpace\<close> multiplies the two \<open>uint64\<close> values without a guard against
  overflow.  So for a status error with the generic code, with the extension and a query
  that succeeds: whenever inodes are available and the budget is not smaller than the
  size, but the budget taken modulo \<open>2 ^ 64\<close> is, \<open>checkNoSpace\<close> still returns the
  permanent no-space error.
\<close>

theorem checkNoSpace_overflow:
  "extensions env ''statvfs@openssh.com'' \<and> reply env tr (StatVFS dir) = None
     \<and> 0 \<le> sz \<and> sz < 2 ^ 63
     \<and> Favail (statvfs env tr) \<noteq> 0
     \<and> nat sz \<le> unat (Frsize (statvfs env tr)) * unat (Bavail (statvfs env tr))
     \<and> (unat (Frsize (statvfs env tr)) * unat (Bavail (statvfs env tr))) mod 2 ^ 64 < nat sz
   \<longrightarrow> fst (checkNoSpace env dir sz (StatusError ErrSSHFxFailure) tr)
         = Permanent (New ''sftp: no space left on device'')"
proof
  assume a: "extensions env ''statvfs@openssh.com'' \<and> reply env tr (StatVFS dir) = None
     \<and> 0 \<le> sz \<and> sz < 2 ^ 63
     \<and> Favail (statvfs env tr) \<noteq> 0
     \<and> nat sz \<le> unat (Frsize (statvfs env tr)) * unat (Bavail (statvfs env tr))
     \<and> (unat (Frsize (statvfs env tr)) * unat (Bavail (statvfs env tr))) mod 2 ^ 64 < nat sz"
  then have "Frsize (statvfs env tr) * Bavail (statvfs env tr) < uint64 sz"
    by (simp add: wrapped_product)
  with a show "fst (checkNoSpace env dir sz (StatusError ErrSSHFxFailure) tr)
         = Permanent (New ''sftp: no space left on device'')"
    by (simp add: checkNoSpace_cases)
qed

text \<open>
  On the very large volume a write of 5 bytes that failed with the generic status is
  reported as a permanent lack of space, although 1000 inodes and \<open>2 ^ 64\<close> bytes are
  available.
\<close>

theorem checkNoSpace_overflow_witness:
  "fst (checkNoSpace env_huge ''/repo/data'' 5 (StatusError ErrSSHFxFailure) [])
     = Permanent (New ''sftp: no space left on device'')
   \<and> Favail (statvfs env_huge []) = 1000
   \<and> unat (Frsize (statvfs env_huge [])) * unat (Bavail (statvfs env_huge [])) = 2 ^ 64"
proof -
  have u: "unat (Frsize (statvfs env_huge [])) * unat (Bavail (statvfs env_huge [])) = 2 ^ 64"
    by (simp add: huge_statvfs)
  have "fst (checkNoSpace env_huge ''/repo/data'' 5 (StatusError ErrSSHFxFailure) [])
     = Permanent (New ''sftp: no space left on device'')"
    by (rule checkNoSpace_overflow [of env_huge "[]" "''/repo/data''" 5, rule_format])
       (simp add: huge_ext huge_reply u, simp add: huge_statvfs)
  with u show ?thesis by (simp add: huge_statvfs)
qed

text \<open>
  On the full disk the generic failure becomes the no-space error and a permission error
  stays what it is; where 1000 blocks of 4096 bytes are available, a write of 5 bytes that
  failed keeps its error.
\<close>

lemma checkNoSpace_examples:
  "fst (checkNoSpace env_full ''/repo/data'' 5 (StatusError ErrSSHFxFailure) [])
     = Permanent (New ''sftp: no space left on device'')
   \<and> fst (checkNoSpace env_full ''/repo/data'' 5 ErrPermission []) = ErrPermission
   \<and> fst (checkNoSpace env_ok ''/repo/data'' 5 (StatusError ErrSSHFxFailure) [])
     = StatusError ErrSSHFxFailure"
  using checkNoSpace_cases [of env_full "''/repo/data''" 5 "StatusError ErrSSHFxFailure" "[]"]
        checkNoSpace_cases [of env_full "''/repo/data''" 5 ErrPermission "[]"]
        checkNoSpace_cases [of env_ok "''/repo/data''" 5 "StatusError ErrSSHFxFailure" "[]"]
  by (simp add: env_full_def env_ok_def uint64_def)

subsection \<open>The launch command\<close>

text \<open>
  Claim C7.  With an explicit command and no extra arguments, the command is split into
  shell words and these are used as they are: the first is the program, the others its
  arguments.  With an explicit command and extra arguments the result is an error.
  Without an explicit command the program is \<open>ssh\<close> and its arguments are the host, then
  \<open>-p\<close> and the port if a port is set, then \<open>-l\<close> and the user if a user is set, then
  the split extra arguments if any are set, then \<open>-s\<close> and \<open>sftp\<close>.
\<close>

theorem buildSSHCommand_resolution:
  "(Command cfg \<noteq> [] \<longrightarrow> Args cfg = [] \<longrightarrow> split (Command cfg) = Inr (a # as)
      \<longrightarrow> buildSSHCommand split cfg = Returns (Inr (a, as)))
   \<and> (Command cfg \<noteq> [] \<longrightarrow> Args cfg \<noteq> [] \<longrightarrow>
        buildSSHCommand split cfg =
          (case split (Command cfg) of
             Inl e \<Rightarrow> Returns (Inl e)
           | Inr args \<Rightarrow> Returns (Inl (New ''cannot specify both sftp.command and sftp.args options''))))
   \<and> (Command cfg = [] \<longrightarrow>
        buildSSHCommand split cfg =
          (case (if Args cfg = [] then Inr [] else split (Args cfg)) of
             Inl e \<Rightarrow> Returns (Inl e)
           | Inr extra \<Rightarrow>
               Returns (Inr (''ssh'',
                 [Host cfg] @ (if Port cfg = [] then [] else [''-p'', Port cfg])
                 @ (if User cfg = [] then [] else [''-l'', User cfg])
                 @ extra @ [''-s'', ''sftp'']))))"
  by (auto simp: buildSSHCommand_def Let_def split: sum.splits list.splits)

theorem buildSSHCommand_resolution_witness:
  "buildSSHCommand example_split cfg_command
     = Returns (Inr (''ssh'', [''-v'', ''backup@host'', ''-s'', ''sftp'']))
   \<and> buildSSHCommand example_split cfg_both
     = Returns (Inl (New ''cannot specify both sftp.command and sftp.args options''))
   \<and> buildSSHCommand example_split cfg_default
     = Returns (Inr (''ssh'', [''host'', ''-p'', ''2222'', ''-l'', ''backup'',
                               ''-o'', ''BatchMode=yes'', ''-s'', ''sftp'']))"
  using buildSSHCommand_resolution [of cfg_command example_split "''ssh''"
          "[''-v'', ''backup@host'', ''-s'', ''sftp'']"]
        buildSSHCommand_resolution [of cfg_both example_split]
        buildSSHCommand_resolution [of cfg_default example_split]
  by (simp add: cfg_command_def cfg_both_def cfg_default_def example_split_def)

subsection \<open>Save\<close>

lemma new_calls_append: "new_calls tr (tr @ xs) = xs"
  by (simp add: new_calls_def)

lemma Save_OpenFile_calls:
  "Save_OpenFile env tmp d tr = (e, tr1) \<Longrightarrow>
     \<exists>xs. tr1 = tr @ xs \<and> set xs \<subseteq> {OpenFile tmp, MkdirAll d}"
  by (auto simp: Save_OpenFile_def rpc_def Let_def split: if_splits)

lemma checkNoSpace_calls:
  "snd (checkNoSpace env d n e tr) = tr \<or> snd (checkNoSpace env d n e tr) = tr @ [StatVFS d]"
  by (cases e) (auto simp: checkNoSpace_def rpc_def Let_def)

text \<open>What \<open>Save\<close> does once the temporary file exists, one lemma for each way out.\<close>

lemma Save_chmod_fails:
  assumes "clientError r = None"
    and "tmp = Filename (layout r) h @ ''-restic-temp-'' @ tempSuffix"
    and "Save_OpenFile env tmp (Dirname (layout r) h) tr = (None, tr1)"
    and "reply env tr1 (Chmod tmp (File (modes r))) = Some e"
  shows "Save r env tempSuffix h n tr =
           (Some (Wrap e (''Chmod '' @ tmp)), tr1 @ [Chmod tmp (File (modes r))])"
  using assms by (simp add: Save_def Let_def rpc_def)

lemma Save_write_fails:
  assumes "clientError r = None"
    and "tmp = Filename (layout r) h @ ''-restic-temp-'' @ tempSuffix"
    and "Save_OpenFile env tmp (Dirname (layout r) h) tr = (None, tr1)"
    and "reply env tr1 (Chmod tmp (File (modes r))) = None"
    and "trc = tr1 @ [Chmod tmp (File (modes r))]"
    and "reply env trc (ReadFromWithConcurrency tmp) = Some e"
    and "trl = trc @ [ReadFromWithConcurrency tmp, Close tmp]"
  shows "Save r env tempSuffix h n tr =
           (Some (Wrap (fst (checkNoSpace env (Dirname (layout r) h) n e trl)) (''Write '' @ tmp)),
            snd (checkNoSpace env (Dirname (layout r) h) n e trl) @ [Remove tmp])"
  using assms
  by (simp add: Save_def Let_def rpc_def Save_deferred_def errors_Wrap_def split: prod.splits)

lemma Save_mismatch:
  assumes "clientError r = None"
    and "tmp = Filename (layout r) h @ ''-restic-temp-'' @ tempSuffix"
    and "Save_OpenFile env tmp (Dirname (layout r) h) tr = (None, tr1)"
    and "reply env tr1 (Chmod tmp (File (modes r))) = None"
    and "trc = tr1 @ [Chmod tmp (File (modes r))]"
    and "reply env trc (ReadFromWithConcurrency tmp) = None"
    and "written env trc \<noteq> n"
  shows "Save r env tempSuffix h n tr =
           (Some (Errorf ''Write %v: wrote %d bytes instead of the expected %d bytes''
                    [S tmp, I (written env trc), I n]),
            trc @ [ReadFromWithConcurrency tmp, Close tmp])"
  using assms by (simp add: Save_def Let_def rpc_def Save_deferred_def)

lemma Save_match:
  assumes "clientError r = None"
    and "tmp = Filename (layout r) h @ ''-restic-temp-'' @ tempSuffix"
    and "Save_OpenFile env tmp (Dirname (layout r) h) tr = (None, tr1)"
    and "reply env tr1 (Chmod tmp (File (modes r))) = None"
    and "trc = tr1 @ [Chmod tmp (File (modes r))]"
    and "reply env trc (ReadFromWithConcurrency tmp) = None"
    and "written env trc = n"
    and "trl = trc @ [ReadFromWithConcurrency tmp, Close tmp]"
    and "rn = Save_rename r tmp (Filename (layout r) h)"
  shows "Save r env tempSuffix h n tr =
           (case reply env (trc @ [ReadFromWithConcurrency tmp]) (Close tmp) of
              Some e \<Rightarrow> (Some (Wrap e (''Close '' @ tmp)), trl @ [Remove tmp])
            | None \<Rightarrow>
               (case reply env trl rn of
                  Some e \<Rightarrow> (Some (Wrap e (''Rename '' @ tmp)), trl @ [rn, Remove tmp])
                | None \<Rightarrow> (None, trl @ [rn])))"
  using assms
  by (auto simp add: Save_def Let_def rpc_def Save_deferred_def errors_Wrap_def Save_rename_def
      split: option.splits)

text \<open>
  When a rename is among the calls of \<open>Save\<close>, the mode was set, the write reported no
  error and the declared number of bytes, and the close succeeded.
\<close>

lemma Save_rename_only_after_close:
  assumes "clientError r = None"
    and "tmp = Filename (layout r) h @ ''-restic-temp-'' @ tempSuffix"
    and "Save_OpenFile env tmp (Dirname (layout r) h) tr = (None, tr1)"
    and "trc = tr1 @ [Chmod tmp (File (modes r))]"
    and "c \<in> set (new_calls tr (snd (Save r env tempSuffix h n tr)))"
    and "is_rename c"
  shows "reply env tr1 (Chmod tmp (File (modes r))) = None
         \<and> reply env trc (ReadFromWithConcurrency tmp) = None
         \<and> written env trc = n
         \<and> reply env (trc @ [ReadFromWithConcurrency tmp]) (Close tmp) = None"
proof -
  obtain xs where xs: "tr1 = tr @ xs" "set xs \<subseteq> {OpenFile tmp, MkdirAll (Dirname (layout r) h)}"
    using Save_OpenFile_calls [OF assms(3)] by blast
  have no: "\<And>ys. set ys \<subseteq> {OpenFile tmp, MkdirAll (Dirname (layout r) h), Chmod tmp (File (modes r)),
             ReadFromWithConcurrency tmp, Close tmp, StatVFS (Dirname (layout r) h), Remove tmp}
           \<Longrightarrow> c \<notin> set ys"
    using assms(6) by (cases c) auto
  have chm: "reply env tr1 (Chmod tmp (File (modes r))) = None"
  proof (rule ccontr)
    assume "reply env tr1 (Chmod tmp (File (modes r))) \<noteq> None"
    then obtain e where "reply env tr1 (Chmod tmp (File (modes r))) = Some e" by auto
    from Save_chmod_fails [OF assms(1,2,3) this, of n] assms(5) xs
    have "c \<in> set (xs @ [Chmod tmp (File (modes r))])"
      by (auto simp: new_calls_def)
    moreover have "c \<notin> set (xs @ [Chmod tmp (File (modes r))])"
      by (rule no) (use xs in auto)
    ultimately show False by simp
  qed
  have wr: "reply env trc (ReadFromWithConcurrency tmp) = None"
  proof (rule ccontr)
    assume "reply env trc (ReadFromWithConcurrency tmp) \<noteq> None"
    then obtain e where e: "reply env trc (ReadFromWithConcurrency tmp) = Some e" by auto
    let ?trl = "trc @ [ReadFromWithConcurrency tmp, Close tmp]"
    let ?ns = "snd (checkNoSpace env (Dirname (layout r) h) n e ?trl)"
    from checkNoSpace_calls [of env "Dirname (layout r) h" n e ?trl]
    obtain zs where zs: "?ns = ?trl @ zs" "set zs \<subseteq> {StatVFS (Dirname (layout r) h)}"
      by auto
    from Save_write_fails [OF assms(1,2,3) chm assms(4) e refl, of n] assms(5) xs assms(4) zs
    have "c \<in> set (xs @ [Chmod tmp (File (modes r)), ReadFromWithConcurrency tmp, Close tmp] @ zs @ [Remove tmp])"
      by (auto simp: new_calls_def)
    moreover have "c \<notin> set (xs @ [Chmod tmp (File (modes r)), ReadFromWithConcurrency tmp, Close tmp] @ zs @ [Remove tmp])"
      by (rule no) (use xs zs in auto)
    ultimately show False by simp
  qed
  have len: "written env trc = n"
  proof (rule ccontr)
    assume "written env trc \<noteq> n"
    from Save_mismatch [OF assms(1,2,3) chm assms(4) wr this] assms(5) xs assms(4)
    have "c \<in> set (xs @ [Chmod tmp (File (modes r)), ReadFromWithConcurrency tmp, Close tmp])"
      by (auto simp: new_calls_def)
    moreover have "c \<notin> set (xs @ [Chmod tmp (File (modes r)), ReadFromWithConcurrency tmp, Close tmp])"
      by (rule no) (use xs in auto)
    ultimately show False by simp
  qed
  have cl: "reply env (trc @ [ReadFromWithConcurrency tmp]) (Close tmp) = None"
  proof (rule ccontr)
    assume "reply env (trc @ [ReadFromWithConcurrency tmp]) (Close tmp) \<noteq> None"
    then obtain e where e: "reply env (trc @ [ReadFromWithConcurrency tmp]) (Close tmp) = Some e" by auto
    from Save_match [OF assms(1,2,3) chm assms(4) wr len refl refl] e assms(5) xs assms(4)
    have "c \<in> set (xs @ [Chmod tmp (File (modes r)), ReadFromWithConcurrency tmp, Close tmp, Remove tmp])"
      by (auto simp: new_calls_def)
    moreover have "c \<notin> set (xs @ [Chmod tmp (File (modes r)), ReadFromWithConcurrency tmp, Close tmp, Remove tmp])"
      by (rule no) (use xs in auto)
    ultimately show False by simp
  qed
  from chm wr len cl show ?thesis by simp
qed

text \<open>
  Claim C8.  In a \<open>Save\<close> that has created the temporary file and set its mode and whose
  streaming write reports no error: if the number of bytes written differs from the
  declared length, \<open>Save\<close> returns an error and issues no rename; if the numbers are
  equal and the close succeeds, it goes on to the rename; a rename is among its calls only
  if the numbers are equal.
\<close>

theorem Save_length_check:
  assumes "clientError r = None"
    and "tmp = Filename (layout r) h @ ''-restic-temp-'' @ tempSuffix"
    and "Save_OpenFile env tmp (Dirname (layout r) h) tr = (None, tr1)"
    and "reply env tr1 (Chmod tmp (File (modes r))) = None"
    and "trc = tr1 @ [Chmod tmp (File (modes r))]"
    and "reply env trc (ReadFromWithConcurrency tmp) = None"
  shows "(written env trc \<noteq> n \<longrightarrow>
            fst (Save r env tempSuffix h n tr) =
              Some (Errorf ''Write %v: wrote %d bytes instead of the expected %d bytes''
                      [S tmp, I (written env trc), I n])
            \<and> \<not> (\<exists>c \<in> set (new_calls tr (snd (Save r env tempSuffix h n tr))). is_rename c))
       \<and> (written env trc = n \<longrightarrow> reply env (trc @ [ReadFromWithConcurrency tmp]) (Close tmp) = None \<longrightarrow>
            Save_rename r tmp (Filename (layout r) h)
              \<in> set (new_calls tr (snd (Save r env tempSuffix h n tr))))
       \<and> ((\<exists>c \<in> set (new_calls tr (snd (Save r env tempSuffix h n tr))). is_rename c) \<longrightarrow>
            written env trc = n)"
proof -
  obtain xs where xs: "tr1 = tr @ xs"
    using Save_OpenFile_calls [OF assms(3)] by blast
  have only: "\<And>c. c \<in> set (new_calls tr (snd (Save r env tempSuffix h n tr))) \<Longrightarrow> is_rename c
                \<Longrightarrow> written env trc = n"
    using Save_rename_only_after_close [OF assms(1,2,3,5)] by blast
  have a: "written env trc \<noteq> n \<longrightarrow>
             fst (Save r env tempSuffix h n tr) =
               Some (Errorf ''Write %v: wrote %d bytes instead of the expected %d bytes''
                       [S tmp, I (written env trc), I n])
             \<and> \<not> (\<exists>c \<in> set (new_calls tr (snd (Save r env tempSuffix h n tr))). is_rename c)"
  proof (intro impI conjI)
    assume ne: "written env trc \<noteq> n"
    from Save_mismatch [OF assms ne]
    show "fst (Save r env tempSuffix h n tr) =
            Some (Errorf ''Write %v: wrote %d bytes instead of the expected %d bytes''
                    [S tmp, I (written env trc), I n])"
      by simp
    from only ne
    show "\<not> (\<exists>c \<in> set (new_calls tr (snd (Save r env tempSuffix h n tr))). is_rename c)"
      by blast
  qed
  have b: "written env trc = n \<longrightarrow> reply env (trc @ [ReadFromWithConcurrency tmp]) (Close tmp) = None \<longrightarrow>
             Save_rename r tmp (Filename (layout r) h)
               \<in> set (new_calls tr (snd (Save r env tempSuffix h n tr)))"
  proof (intro impI)
    assume n: "written env trc = n"
      and c: "reply env (trc @ [ReadFromWithConcurrency tmp]) (Close tmp) = None"
    from Save_match [OF assms n refl refl] c xs assms(5)
    show "Save_rename r tmp (Filename (layout r) h)
            \<in> set (new_calls tr (snd (Save r env tempSuffix h n tr)))"
      by (auto simp: new_calls_def split: option.splits)
  qed
  from a b only show ?thesis by blast
qed

text \<open>
  A write that takes 5 bytes of a declared 7 fails; with 5 bytes declared the rename is
  issued.
\<close>

theorem Save_length_check_witness:
  "fst (Save example_backend env_ok ''00ff'' example_handle 7 []) =
     Some (Errorf ''Write %v: wrote %d bytes instead of the expected %d bytes''
             [S ''/repo/data/abc-restic-temp-00ff'', I 5, I 7])
   \<and> PosixRename ''/repo/data/abc-restic-temp-00ff'' ''/repo/data/abc''
       \<in> set (new_calls [] (snd (Save example_backend env_ok ''00ff'' example_handle 5 [])))"
  using Save_length_check [of example_backend "''/repo/data/abc-restic-temp-00ff''" example_handle
          "''00ff''" env_ok "[]" "[OpenFile ''/repo/data/abc-restic-temp-00ff'']"
          "[OpenFile ''/repo/data/abc-restic-temp-00ff'', Chmod ''/repo/data/abc-restic-temp-00ff'' 384]" 7]
        Save_length_check [of example_backend "''/repo/data/abc-restic-temp-00ff''" example_handle
          "''00ff''" env_ok "[]" "[OpenFile ''/repo/data/abc-restic-temp-00ff'']"
          "[OpenFile ''/repo/data/abc-restic-temp-00ff'', Chmod ''/repo/data/abc-restic-temp-00ff'' 384]" 5]
  by (simp add: clientError_def example_backend_def example_layout_def example_handle_def env_ok_def
      Save_OpenFile_def rpc_def IsNotExist_def Save_rename_def)

text \<open>
  Claim C2 as the spec states it fails: when closing the temporary file fails, \<open>Save\<close>
  does attempt to remove it.  The deferred function runs at every return after line 327
  and removes the file whenever the variable \<open>err\<close> is set, and the failed close has set
  it.
\<close>

theorem Save_close_failure_removes_temp:
  "reply (env_failing (Close ''/repo/data/abc-restic-temp-00ff'') (New ''connection lost''))
     [OpenFile ''/repo/data/abc-restic-temp-00ff'', Chmod ''/repo/data/abc-restic-temp-00ff'' 384,
      ReadFromWithConcurrency ''/repo/data/abc-restic-temp-00ff'']
     (Close ''/repo/data/abc-restic-temp-00ff'') = Some (New ''connection lost'')
   \<and> Save example_backend (env_failing (Close ''/repo/data/abc-restic-temp-00ff'') (New ''connection lost''))
       ''00ff'' example_handle 5 [] =
     (Some (Wrap (New ''connection lost'') ''Close /repo/data/abc-restic-temp-00ff''),
      [OpenFile ''/repo/data/abc-restic-temp-00ff'', Chmod ''/repo/data/abc-restic-temp-00ff'' 384,
       ReadFromWithConcurrency ''/repo/data/abc-restic-temp-00ff'',
       Close ''/repo/data/abc-restic-temp-00ff'',
       Remove ''/repo/data/abc-restic-temp-00ff''])"
  by (simp add: Save_def Save_OpenFile_def clientError_def example_backend_def example_layout_def
      env_failing_def env_ok_def example_handle_def rpc_def Let_def IsNotExist_def
      Save_deferred_def errors_Wrap_def)

text \<open>
  Claim C2, amended.  In a \<open>Save\<close> that has created the temporary file and set its mode:
  if the streaming write fails, if closing the temporary file fails, or if the rename
  fails, \<open>Save\<close> returns the wrapped error and its last call is the removal of the
  temporary file, whose result it ignores.  The rename is among its calls only if the
  mode was set, the write reported no error and the declared length, and the close
  succeeded; so a \<open>Save\<close> that fails before the rename has issued no rename to the final
  path.
\<close>

theorem Save_cleanup:
  assumes "clientError r = None"
    and "tmp = Filename (layout r) h @ ''-restic-temp-'' @ tempSuffix"
    and "Save_OpenFile env tmp (Dirname (layout r) h) tr = (None, tr1)"
    and "trc = tr1 @ [Chmod tmp (File (modes r))]"
    and "trl = trc @ [ReadFromWithConcurrency tmp, Close tmp]"
    and "rn = Save_rename r tmp (Filename (layout r) h)"
  shows "(reply env tr1 (Chmod tmp (File (modes r))) = None
            \<and> reply env trc (ReadFromWithConcurrency tmp) = Some e \<longrightarrow>
            Save r env tempSuffix h n tr =
              (Some (Wrap (fst (checkNoSpace env (Dirname (layout r) h) n e trl)) (''Write '' @ tmp)),
               snd (checkNoSpace env (Dirname (layout r) h) n e trl) @ [Remove tmp]))
       \<and> (reply env tr1 (Chmod tmp (File (modes r))) = None
            \<and> reply env trc (ReadFromWithConcurrency tmp) = None \<and> written env trc = n
            \<and> reply env (trc @ [ReadFromWithConcurrency tmp]) (Close tmp) = Some e \<longrightarrow>
            Save r env tempSuffix h n tr = (Some (Wrap e (''Close '' @ tmp)), trl @ [Remove tmp]))
       \<and> (reply env tr1 (Chmod tmp (File (modes r))) = None
            \<and> reply env trc (ReadFromWithConcurrency tmp) = None \<and> written env trc = n
            \<and> reply env (trc @ [ReadFromWithConcurrency tmp]) (Close tmp) = None
            \<and> reply env trl rn = Some e \<longrightarrow>
            Save r env tempSuffix h n tr = (Some (Wrap e (''Rename '' @ tmp)), trl @ [rn, Remove tmp]))
       \<and> ((\<exists>c \<in> set (new_calls tr (snd (Save r env tempSuffix h n tr))). is_rename c) \<longrightarrow>
            reply env tr1 (Chmod tmp (File (modes r))) = None
            \<and> reply env trc (ReadFromWithConcurrency tmp) = None \<and> written env trc = n
            \<and> reply env (trc @ [ReadFromWithConcurrency tmp]) (Close tmp) = None)"
proof -
  have 1: "reply env tr1 (Chmod tmp (File (modes r))) = None
            \<and> reply env trc (ReadFromWithConcurrency tmp) = Some e \<longrightarrow>
            Save r env tempSuffix h n tr =
              (Some (Wrap (fst (checkNoSpace env (Dirname (layout r) h) n e trl)) (''Write '' @ tmp)),
               snd (checkNoSpace env (Dirname (layout r) h) n e trl) @ [Remove tmp])"
    using Save_write_fails [OF assms(1,2,3) _ assms(4) _ assms(5)] by blast
  have m: "reply env tr1 (Chmod tmp (File (modes r))) = None
            \<and> reply env trc (ReadFromWithConcurrency tmp) = None \<and> written env trc = n \<longrightarrow>
           Save r env tempSuffix h n tr =
             (case reply env (trc @ [ReadFromWithConcurrency tmp]) (Close tmp) of
                Some e \<Rightarrow> (Some (Wrap e (''Close '' @ tmp)), trl @ [Remove tmp])
              | None \<Rightarrow>
                 (case reply env trl rn of
                    Some e \<Rightarrow> (Some (Wrap e (''Rename '' @ tmp)), trl @ [rn, Remove tmp])
                  | None \<Rightarrow> (None, trl @ [rn])))"
    using Save_match [OF assms(1,2,3) _ assms(4) _ _ assms(5,6)] by blast
  have 2: "reply env tr1 (Chmod tmp (File (modes r))) = None
            \<and> reply env trc (ReadFromWithConcurrency tmp) = None \<and> written env trc = n
            \<and> reply env (trc @ [ReadFromWithConcurrency tmp]) (Close tmp) = Some e \<longrightarrow>
            Save r env tempSuffix h n tr = (Some (Wrap e (''Close '' @ tmp)), trl @ [Remove tmp])"
    using m by simp
  have 3: "reply env tr1 (Chmod tmp (File (modes r))) = None
            \<and> reply env trc (ReadFromWithConcurrency tmp) = None \<and> written env trc = n
            \<and> reply env (trc @ [ReadFromWithConcurrency tmp]) (Close tmp) = None
            \<and> reply env trl rn = Some e \<longrightarrow>
            Save r env tempSuffix h n tr = (Some (Wrap e (''Rename '' @ tmp)), trl @ [rn, Remove tmp])"
    using m by simp
  have 4: "(\<exists>c \<in> set (new_calls tr (snd (Save r env tempSuffix h n tr))). is_rename c) \<longrightarrow>
            reply env tr1 (Chmod tmp (File (modes r))) = None
            \<and> reply env trc (ReadFromWithConcurrency tmp) = None \<and> written env trc = n
            \<and> reply env (trc @ [ReadFromWithConcurrency tmp]) (Close tmp) = None"
    using Save_rename_only_after_close [OF assms(1,2,3,4)] by blast
  from 1 2 3 4 show ?thesis by blast
qed

text \<open>
  On the full disk the failed write becomes the no-space error and the temporary file is
  removed; a failed close and a failed rename are each followed by the removal.
\<close>

theorem Save_cleanup_witness:
  "Save example_backend env_full ''00ff'' example_handle 5 [] =
     (Some (Wrap (Permanent (New ''sftp: no space left on device''))
              ''Write /repo/data/abc-restic-temp-00ff''),
      [OpenFile ''/repo/data/abc-restic-temp-00ff'', Chmod ''/repo/data/abc-restic-temp-00ff'' 384,
       ReadFromWithConcurrency ''/repo/data/abc-restic-temp-00ff'',
       Close ''/repo/data/abc-restic-temp-00ff'', StatVFS ''/repo/data'',
       Remove ''/repo/data/abc-restic-temp-00ff''])
   \<and> Save example_backend (env_failing (Close ''/repo/data/abc-restic-temp-00ff'') (New ''connection lost''))
       ''00ff'' example_handle 5 [] =
     (Some (Wrap (New ''connection lost'') ''Close /repo/data/abc-restic-temp-00ff''),
      [OpenFile ''/repo/data/abc-restic-temp-00ff'', Chmod ''/repo/data/abc-restic-temp-00ff'' 384,
       ReadFromWithConcurrency ''/repo/data/abc-restic-temp-00ff'',
       Close ''/repo/data/abc-restic-temp-00ff'',
       Remove ''/repo/data/abc-restic-temp-00ff''])
   \<and> Save example_backend
       (env_failing (PosixRename ''/repo/data/abc-restic-temp-00ff'' ''/repo/data/abc'') ErrPermission)
       ''00ff'' example_handle 5 [] =
     (Some (Wrap ErrPermission ''Rename /repo/data/abc-restic-temp-00ff''),
      [OpenFile ''/repo/data/abc-restic-temp-00ff'', Chmod ''/repo/data/abc-restic-temp-00ff'' 384,
       ReadFromWithConcurrency ''/repo/data/abc-restic-temp-00ff'',
       Close ''/repo/data/abc-restic-temp-00ff'',
       PosixRename ''/repo/data/abc-restic-temp-00ff'' ''/repo/data/abc'',
       Remove ''/repo/data/abc-restic-temp-00ff''])"
proof -
  let ?tmp = "''/repo/data/abc-restic-temp-00ff''"
  let ?tr1 = "[] @ [OpenFile ?tmp]"
  let ?trc = "?tr1 @ [Chmod ?tmp (File (modes example_backend))]"
  let ?trl = "?trc @ [ReadFromWithConcurrency ?tmp, Close ?tmp]"
  let ?rn = "Save_rename example_backend ?tmp (Filename (layout example_backend) example_handle)"
  have rn: "?rn = PosixRename ?tmp ''/repo/data/abc''"
    by (simp add: Save_rename_def example_posix example_Filename)
  have full: "Save example_backend env_full ''00ff'' example_handle 5 [] =
     (Some (Wrap (Permanent (New ''sftp: no space left on device'')) ''Write /repo/data/abc-restic-temp-00ff''),
      [OpenFile ?tmp, Chmod ?tmp 384, ReadFromWithConcurrency ?tmp, Close ?tmp, StatVFS ''/repo/data'',
       Remove ?tmp])"
  proof -
    have op: "Save_OpenFile env_full ?tmp (Dirname (layout example_backend) example_handle) [] = (None, ?tr1)"
      by (rule Save_OpenFile_ok) (simp add: env_full_def)
    have pre: "reply env_full ?tr1 (Chmod ?tmp (File (modes example_backend))) = None
        \<and> reply env_full ?trc (ReadFromWithConcurrency ?tmp) = Some (StatusError 4)"
      by (simp add: env_full_def)
    have cns: "\<And>tr. checkNoSpace env_full ''/repo/data'' 5 (StatusError 4) tr
                 = (Permanent (New ''sftp: no space left on device''), tr @ [StatVFS ''/repo/data''])"
      by (simp add: checkNoSpace_def env_full_def env_ok_def ErrSSHFxFailure_def uint64_def rpc_def Let_def)
    from Save_cleanup [OF example_clientError example_tmp op refl refl refl,
        of "StatusError 4" 5, THEN conjunct1, rule_format, OF pre]
    show ?thesis by (simp add: example_mode example_Dirname cns)
  qed
  have close: "Save example_backend (env_failing (Close ?tmp) (New ''connection lost'')) ''00ff'' example_handle 5 [] =
     (Some (Wrap (New ''connection lost'') ''Close /repo/data/abc-restic-temp-00ff''),
      [OpenFile ?tmp, Chmod ?tmp 384, ReadFromWithConcurrency ?tmp, Close ?tmp, Remove ?tmp])"
  proof -
    let ?env = "env_failing (Close ?tmp) (New ''connection lost'')"
    have op: "Save_OpenFile ?env ?tmp (Dirname (layout example_backend) example_handle) [] = (None, ?tr1)"
      by (rule Save_OpenFile_ok) (simp add: reply_env_failing)
    have pre: "reply ?env ?tr1 (Chmod ?tmp (File (modes example_backend))) = None
        \<and> reply ?env ?trc (ReadFromWithConcurrency ?tmp) = None
        \<and> written ?env ?trc = 5
        \<and> reply ?env (?trc @ [ReadFromWithConcurrency ?tmp]) (Close ?tmp) = Some (New ''connection lost'')"
      by (simp add: reply_env_failing written_env_failing)
    from Save_cleanup [OF example_clientError example_tmp op refl refl refl,
        of "New ''connection lost''" 5, THEN conjunct2, THEN conjunct1, rule_format, OF pre]
    show ?thesis by (simp add: example_mode)
  qed
  have rename: "Save example_backend (env_failing (PosixRename ?tmp ''/repo/data/abc'') ErrPermission)
       ''00ff'' example_handle 5 [] =
     (Some (Wrap ErrPermission ''Rename /repo/data/abc-restic-temp-00ff''),
      [OpenFile ?tmp, Chmod ?tmp 384, ReadFromWithConcurrency ?tmp, Close ?tmp,
       PosixRename ?tmp ''/repo/data/abc'', Remove ?tmp])"
  proof -
    let ?env = "env_failing (PosixRename ?tmp ''/repo/data/abc'') ErrPermission"
    have op: "Save_OpenFile ?env ?tmp (Dirname (layout example_backend) example_handle) [] = (None, ?tr1)"
      by (rule Save_OpenFile_ok) (simp add: reply_env_failing)
    have pre: "reply ?env ?tr1 (Chmod ?tmp (File (modes example_backend))) = None
        \<and> reply ?env ?trc (ReadFromWithConcurrency ?tmp) = None
        \<and> written ?env ?trc = 5
        \<and> reply ?env (?trc @ [ReadFromWithConcurrency ?tmp]) (Close ?tmp) = None
        \<and> reply ?env ?trl ?rn = Some ErrPermission"
      by (simp add: reply_env_failing written_env_failing rn)
    from Save_cleanup [OF example_clientError example_tmp op refl refl refl,
        of ErrPermission 5, THEN conjunct2, THEN conjunct2, THEN conjunct1, rule_format, OF pre]
    show ?thesis by (simp add: example_mode rn)
  qed
  from full close rename show ?thesis by (intro conjI)
qed

subsection \<open>The exit of the subprocess\<close>

text \<open>
  \<open>Save\<close>, \<open>Load\<close>, \<open>Stat\<close>, \<open>Remove\<close> and \<open>List\<close> consult \<open>clientError\<close>
  first: once it reports the exit of the subprocess, each of them returns that error and
  makes no call.
\<close>

lemma clientError_fails_fast:
  assumes "clientError r = Some e"
  shows "Save r env tempSuffix h n tr = (Some e, tr)"
    and "Load r env flag h len offset fn tr = (Returns (Some e), tr)"
    and "Stat_op r env h tr = (Inl e, tr)"
    and "Remove_op r env h tr = (Some e, tr)"
    and "List_op fuel r env t lst tr = Some (Some e, tr)"
  using assms by (simp_all add: Save_def Load_def Stat_op_def Remove_op_def List_op_def)

lemma clientError_exited:
  "clientError exited_backend = Some (Permanent (Wrap (New ''exit status 255'') ''ssh command exited''))"
  by (simp add: clientError_def exited_backend_def example_backend_def wait_goroutine_def
      errors_Wrap_def backoff_Permanent_def)

text \<open>
  Claim C1 says that every operation, \<open>Delete\<close> among them, fails at once with the exit
  error and makes no further call once the subprocess has exited.  \<open>Delete\<close> (lines 590
  to 592) does not consult \<open>clientError\<close>.  On the backend whose subprocess has exited
  with status 255, \<open>Remove\<close> returns the permanent exit error without a call, while
  \<open>Delete\<close> calls \<open>ReadDir\<close> on the root and, the connection being lost, returns the
  error of that call, which is not the permanent exit error.
\<close>

theorem Delete_after_exit:
  "clientError exited_backend = Some (Permanent (Wrap (New ''exit status 255'') ''ssh command exited''))
   \<and> Remove_op exited_backend env_ok example_handle [] =
       (Some (Permanent (Wrap (New ''exit status 255'') ''ssh command exited'')), [])
   \<and> Delete exited_backend env_ok (ReadDirErr (New ''connection lost'')) [] =
       (Some (Wrap (New ''connection lost'') ''ReadDir /repo''), [ReadDir ''/repo''])"
proof -
  have "p exited_backend = ''/repo''"
    by (simp add: exited_backend_def example_backend_def)
  then have "Delete exited_backend env_ok (ReadDirErr (New ''connection lost'')) [] =
       (Some (Wrap (New ''connection lost'') ''ReadDir /repo''), [ReadDir ''/repo''])"
    by (simp add: Delete_def)
  with clientError_exited clientError_fails_fast(4) [OF clientError_exited]
  show ?thesis by simp
qed

theorem Delete_after_exit_witness:
  "ReadDir ''/repo'' \<in> set (snd (Delete exited_backend env_ok (ReadDirErr (New ''connection lost'')) []))
   \<and> IsPermanentError (fst (Delete exited_backend env_ok (ReadDirErr (New ''connection lost'')) [])) = False"
  using Delete_after_exit by (simp add: IsPermanentError_def IsNotExist_def)

subsection \<open>Create\<close>

lemma mkdirAllDataSubdirs_Wrap:
  "mkdirAllDataSubdirs env ds tr = (Some e, tr') \<Longrightarrow> \<exists>x m. e = Wrap x m"
proof (induction ds arbitrary: tr tr' e)
  case Nil
  then show ?case by simp
next
  case (Cons d ds)
  then show ?case
    by (auto simp: rpc_def Let_def errors_Wrap_def split: prod.splits option.splits if_splits)
qed

text \<open>
  Claim C10.  Once the client has started, \<open>Create\<close> fails with the error "config file
  already exists" exactly when the \<open>Lstat\<close> of the config file succeeds, and then makes
  no further call; when that \<open>Lstat\<close> returns an error, whichever it is, \<open>Create\<close>
  goes on to create the directories of the layout.
\<close>

theorem Create_config_exists:
  "Create (Inr sftp) env cfg tr =
     (if reply env tr (Lstat (Filename (layout sftp) ConfigHandle)) = None
      then (Inl (New ''config file already exists''), tr @ [Lstat (Filename (layout sftp) ConfigHandle)])
      else (case mkdirAllDataSubdirs env (Paths (layout sftp))
                   (tr @ [Lstat (Filename (layout sftp) ConfigHandle)]) of
              (Some e, tr') \<Rightarrow> (Inl e, tr')
            | (None, tr') \<Rightarrow>
                (Inr (fst (open' (sftp\<lparr>modes := DefaultModes env\<rparr>) cfg env tr')),
                 snd (open' (sftp\<lparr>modes := DefaultModes env\<rparr>) cfg env tr'))))
   \<and> (fst (Create (Inr sftp) env cfg tr) = Inl (New ''config file already exists''))
       = (reply env tr (Lstat (Filename (layout sftp) ConfigHandle)) = None)"
  by (auto simp: Create_def rpc_def Let_def split: prod.splits option.splits
      dest: mkdirAllDataSubdirs_Wrap)

text \<open>
  Where the config file exists, \<open>Create\<close> stops after the probe; where the probe is
  denied, \<open>Create\<close> creates the directories.
\<close>

theorem Create_config_exists_witness:
  "Create (Inr example_backend) env_ok cfg_default [] =
     (Inl (New ''config file already exists''), [Lstat ''/repo/config''])
   \<and> snd (Create (Inr example_backend) (env_failing (Lstat ''/repo/config'') ErrPermission) cfg_default [])
       = [Lstat ''/repo/config'', Mkdir ''/repo'', Mkdir ''/repo/data'', Stat ''/repo/config'']"
proof -
  have f: "Filename (layout example_backend) ConfigHandle = ''/repo/config''"
    by (simp add: example_backend_def example_layout_def ConfigHandle_def)
  have ps: "Paths (layout example_backend) = [''/repo'', ''/repo/data'']"
    by (simp add: example_backend_def example_layout_def)
  have 1: "Create (Inr example_backend) env_ok cfg_default [] =
     (Inl (New ''config file already exists''), [Lstat ''/repo/config''])"
    using Create_config_exists [of example_backend env_ok cfg_default "[]", THEN conjunct1]
    by (simp add: f env_ok_def)
  have 2: "snd (Create (Inr example_backend) (env_failing (Lstat ''/repo/config'') ErrPermission) cfg_default [])
       = [Lstat ''/repo/config'', Mkdir ''/repo'', Mkdir ''/repo/data'', Stat ''/repo/config'']"
    using Create_config_exists [of example_backend "env_failing (Lstat ''/repo/config'') ErrPermission"
        cfg_default "[]", THEN conjunct1]
    by (simp add: f ps reply_env_failing rpc_def Let_def open'_def)
  from 1 2 show ?thesis by simp
qed

subsection \<open>Load\<close>

lemma Load_opened:
  assumes "clientError r = None"
    and "openReader r env h len offset tr = (Inr rd0, tr1)"
  shows "Load r env flag h len offset fn tr = Load_fn env flag (Filename (layout r) h) len fn rd0 tr1"
  using assms by (simp add: Load_def DefaultLoad_def)

text \<open>A bounded reader stays a bounded reader, whatever is read from it.\<close>

lemma reader_Read_kind:
  "reader_Read env name (LimitedReadCloser N) n tr = (res, rd, tr') \<Longrightarrow> \<exists>N'. rd = LimitedReadCloser N'"
  by (auto simp: reader_Read_def File_Read_def Let_def split: if_splits)

lemma run_consumer_kind:
  "run_consumer fn env name (LimitedReadCloser N) tr = (res, rd, tr') \<Longrightarrow> \<exists>N'. rd = LimitedReadCloser N'"
proof (induction fn arbitrary: N tr)
  case (Done x)
  then show ?case by auto
next
  case (DoRead n k)
  obtain r1 rd1 tr1 where 1: "reader_Read env name (LimitedReadCloser N) n tr = (r1, rd1, tr1)"
    by (cases "reader_Read env name (LimitedReadCloser N) n tr") auto
  then obtain N1 where 2: "rd1 = LimitedReadCloser N1"
    using reader_Read_kind by blast
  from DoRead.prems 1 2 have "run_consumer (k r1) env name (LimitedReadCloser N1) tr1 = (res, rd, tr')"
    by simp
  then show ?case using DoRead.IH by blast
qed

lemma openReader_kind:
  "openReader r env h len offset tr = (Inr rd0, tr1) \<Longrightarrow>
     rd0 = (if 0 < len then LimitedReadCloser len else SftpFile)"
  by (auto simp: openReader_def rpc_def Let_def split: option.splits if_splits)

text \<open>With a positive length the type assertion of \<open>Load\<close> never panics.\<close>

lemma Load_no_panic:
  assumes "0 < len"
  shows "fst (Load r env flag h len offset fn tr) \<noteq> Panics"
proof (cases "clientError r")
  case (Some e)
  then show ?thesis by (simp add: Load_def)
next
  case None
  obtain o1 tr1 where o: "openReader r env h len offset tr = (o1, tr1)"
    by (cases "openReader r env h len offset tr") auto
  show ?thesis
  proof (cases o1)
    case (Inl e)
    with None o show ?thesis by (simp add: Load_def DefaultLoad_def)
  next
    case (Inr rd0)
    with o assms have rd0: "rd0 = LimitedReadCloser len"
      using openReader_kind by fastforce
    obtain res rd1 tr2 where c: "run_consumer fn env (Filename (layout r) h) rd0 tr1 = (res, rd1, tr2)"
      by (cases "run_consumer fn env (Filename (layout r) h) rd0 tr1") auto
    then obtain N1 where rd1: "rd1 = LimitedReadCloser N1"
      using run_consumer_kind rd0 by blast
    obtain pr rd2 tr3 where q: "reader_Read env (Filename (layout r) h) rd1 1 tr2 = (pr, rd2, tr3)"
      by (cases "reader_Read env (Filename (layout r) h) rd1 1 tr2") auto
    then obtain N2 where rd2: "rd2 = LimitedReadCloser N2"
      using reader_Read_kind rd1 by blast
    from None o Inr c q rd2 show ?thesis
      by (cases pr) (simp add: Load_opened Load_fn_def)
  qed
qed

text \<open>
  Claim C3.  Let \<open>Load\<close> have opened the reader, let the consumer have returned \<open>res\<close>,
  and let \<open>rderr\<close> be the error of reading one more byte from the reader afterwards.
  With a positive length and the flag enabled: if that read reports end-of-stream while
  the counter of the bounded reader is not zero, \<open>Load\<close> returns the error
  \<open>fmt.Errorf("%w: %v", errTooShort, res)\<close>, which matches the too-short sentinel and
  carries the result of the consumer, also when that is nil; otherwise it returns \<open>res\<close>.
  With length zero or the flag disabled \<open>Load\<close> returns \<open>res\<close> and reads no further
  byte.
\<close>

theorem Load_too_short:
  assumes "clientError r = None"
    and "openReader r env h len offset tr = (Inr rd0, tr1)"
    and "run_consumer fn env (Filename (layout r) h) rd0 tr1 = (res, rd1, tr2)"
    and "reader_Read env (Filename (layout r) h) rd1 1 tr2 = ((k, rderr), rd2, tr3)"
  shows "(0 < len \<and> flag \<and> rderr = Some EOF \<and> (\<exists>N. rd2 = LimitedReadCloser N \<and> N \<noteq> 0) \<longrightarrow>
            Load r env flag h len offset fn tr = (Returns (Some (Errorf_w_v errTooShort res)), tr3)
            \<and> errors_Is (Errorf_w_v errTooShort res) errTooShort)
       \<and> (0 < len \<and> flag \<and> (rderr \<noteq> Some EOF \<or> rd2 = LimitedReadCloser 0) \<longrightarrow>
            Load r env flag h len offset fn tr = (Returns res, tr3))
       \<and> (len = 0 \<or> \<not> flag \<longrightarrow> Load r env flag h len offset fn tr = (Returns res, tr2))"
  using assms by (auto simp: Load_opened Load_fn_def)

text \<open>
  The result of the consumer is carried in the message of the too-short error (the
  \<open>%v\<close> operand); what the error unwraps to is the sentinel alone.
\<close>

lemma too_short_chain: "chain (Errorf_w_v errTooShort res) = [Errorf_w_v errTooShort res, errTooShort]"
  by simp

text \<open>
  A request for 5 bytes of the file of 3 bytes, with a consumer that returns nil: with
  the flag the result is the too-short error around nil, without it nil.
\<close>

theorem Load_too_short_witness:
  "Load example_backend env_short True example_handle 5 0 read_once [] =
     (Returns (Some (Errorf_w_v errTooShort None)),
      [Open ''/repo/data/abc'', Read ''/repo/data/abc'' 5, Read ''/repo/data/abc'' 1])
   \<and> Load example_backend env_short False example_handle 5 0 read_once [] =
     (Returns None, [Open ''/repo/data/abc'', Read ''/repo/data/abc'' 5])"
proof -
  let ?f = "''/repo/data/abc''"
  have o: "openReader example_backend env_short example_handle 5 0 [] = (Inr (LimitedReadCloser 5), [Open ?f])"
    by (simp add: openReader_def example_Filename rpc_def env_short_def)
  have c: "run_consumer read_once env_short (Filename (layout example_backend) example_handle)
             (LimitedReadCloser 5) [Open ?f] = (None, LimitedReadCloser 2, [Open ?f, Read ?f 5])"
    by (simp add: read_once_def reader_Read_def File_Read_def example_Filename env_short_def Let_def)
  have q: "reader_Read env_short (Filename (layout example_backend) example_handle)
             (LimitedReadCloser 2) 1 [Open ?f, Read ?f 5]
           = ((0, Some EOF), LimitedReadCloser 2, [Open ?f, Read ?f 5, Read ?f 1])"
    by (simp add: reader_Read_def File_Read_def example_Filename env_short_def Let_def)
  note th = Load_too_short [OF example_clientError o c q]
  have 1: "Load example_backend env_short True example_handle 5 0 read_once [] =
     (Returns (Some (Errorf_w_v errTooShort None)), [Open ?f, Read ?f 5, Read ?f 1])"
    using th [of True, THEN conjunct1] by simp
  have 2: "Load example_backend env_short False example_handle 5 0 read_once [] =
     (Returns None, [Open ?f, Read ?f 5])"
    using th [of False, THEN conjunct2, THEN conjunct2] by simp
  from 1 2 show ?thesis by simp
qed

subsection \<open>List\<close>

text \<open>
  The loop of \<open>List\<close> ends: each step of the walker lowers the bound, so a loop that is
  given more iterations than the bound returns.
\<close>

lemma wnode_pos: "0 < wnode n"
  by (cases n) auto

lemma witem_pos: "0 < witem i"
  by (cases i rule: witem.cases) (auto simp: wnode_pos)

lemma wentries_sum: "sum_list (map wnode es) = wentries es"
  by (induction es) auto

lemma pending_le: "pending (w\<lparr>cur := i, stack := rest, descend := True\<rparr>) \<le> witem i - 1"
  by (simp add: pending_def)

lemma Step_decreases:
  assumes "Step env w tr = (True, w', tr')"
  shows "steps_left w' < steps_left w"
proof -
  define w1 where "w1 = fst (let (w, tr) =
            (if descend w \<and> i_err (cur w) = None \<and> IsDir (i_info (cur w)) then
               (case i_info (cur w) of
                  Some (RDir n (ReadDirErr e)) \<Rightarrow>
                    (w\<lparr>stack := Item (i_path (cur w)) (i_info (cur w)) (Some e) # stack w\<rparr>,
                     tr @ [ReadDir (i_path (cur w))])
                | Some (RDir n (Entries list)) \<Rightarrow>
                    (w\<lparr>stack := map (\<lambda>fi. Item (path_Join env (i_path (cur w)) (fi_name fi)) (Some fi) None) list
                                  @ stack w\<rparr>,
                     tr @ [ReadDir (i_path (cur w))])
                | _ \<Rightarrow> (w, tr))
             else (w, tr)) in (w, tr))"
  have s1: "sum_list (map witem (stack w1)) = steps_left w"
  proof (cases "descend w \<and> i_err (cur w) = None \<and> IsDir (i_info (cur w))")
    case False
    then show ?thesis by (auto simp: w1_def steps_left_def pending_def)
  next
    case True
    then obtain n l where info: "i_info (cur w) = Some (RDir n l)"
      by (cases "i_info (cur w)" rule: IsDir.cases) auto
    obtain pa where c: "cur w = Item pa (Some (RDir n l)) None"
      using True info by (cases "cur w") auto
    show ?thesis
    proof (cases l)
      case (ReadDirErr e)
      with True info c show ?thesis
        by (simp add: w1_def steps_left_def pending_def)
    next
      case (Entries es)
      with True info c show ?thesis
        by (simp add: w1_def steps_left_def pending_def wentries_sum comp_def)
    qed
  qed
  from assms obtain i rest where st: "stack w1 = i # rest"
      and w': "w' = w1\<lparr>cur := i, stack := rest, descend := True\<rparr>"
    unfolding Step_def w1_def
    by (auto simp: Let_def split: prod.splits list.splits if_splits option.splits rnode.splits listing.splits)
  have "steps_left w' = sum_list (map witem rest) + pending w'"
    using w' by (simp add: steps_left_def)
  also have "\<dots> \<le> sum_list (map witem rest) + (witem i - 1)"
    using w' pending_le by simp
  also have "\<dots> < sum_list (map witem (stack w1))"
    using st witem_pos [of i] by simp
  finally show ?thesis using s1 by simp
qed

lemma SkipDir_le: "steps_left (SkipDir w) \<le> steps_left w"
  by (simp add: steps_left_def pending_def SkipDir_def)

lemma List_loop_returns:
  "steps_left walker < k \<Longrightarrow> List_loop k env basedir subdirs walker tr \<noteq> None"
proof (induction k arbitrary: walker tr)
  case 0
  then show ?case by simp
next
  case (Suc k)
  obtain ok w' tr' where s: "Step env walker tr = (ok, w', tr')"
    by (cases "Step env walker tr") auto
  show ?case
  proof (cases ok)
    case False
    with s show ?thesis by simp
  next
    case True
    with s have s': "Step env walker tr = (True, w', tr')" by simp
    then have "steps_left w' < steps_left walker"
      by (rule Step_decreases)
    with Suc.prems have lt: "steps_left w' < k" by simp
    then have lt2: "steps_left (SkipDir w') < k"
      using SkipDir_le [of w'] by simp
    have 1: "\<And>tr. List_loop k env basedir subdirs w' tr \<noteq> None"
      by (rule Suc.IH [OF lt])
    have 2: "\<And>tr. List_loop k env basedir subdirs (SkipDir w') tr \<noteq> None"
      by (rule Suc.IH [OF lt2])
    show ?thesis
      unfolding List_loop.simps s' by (simp only: Let_def prod.case rpc_def 1 2 split: if_splits) auto
  qed
qed

lemma List_op_returns:
  assumes "steps_left (fst (Walk (fst (Basedir (layout r) t)) lst tr)) < k"
  shows "List_op k r env t lst tr \<noteq> None"
proof (cases "clientError r")
  case (Some e)
  then show ?thesis by (simp add: List_op_def)
next
  case None
  obtain basedir subdirs where b: "Basedir (layout r) t = (basedir, subdirs)"
    by (cases "Basedir (layout r) t") auto
  obtain walker tr1 where w: "Walk basedir lst tr = (walker, tr1)"
    by (cases "Walk basedir lst tr") auto
  from assms b w have "steps_left walker < k" by simp
  then have "List_loop k env basedir subdirs walker tr1 \<noteq> None"
    by (rule List_loop_returns)
  with None b w show ?thesis by (simp add: List_op_def)
qed

text \<open>
  Where \<open>List\<close> does what claim C6 says: a walk error that does not match not-found
  ends the loop and is returned, wrapped with the base directory; an error of the visitor
  ends the loop and is returned as it is; a base directory that does not exist gives nil
  and no visit.  The first lemma also shows the test of lines 481 to 485, which is made
  at every step of the walk.
\<close>

lemma List_loop_walk_error:
  assumes "Step env walker tr = (True, w', tr')" and "i_err (cur w') = Some e"
  shows "List_loop (Suc k) env basedir subdirs walker tr =
           (if errors_Is e ErrNotExist then Some (None, tr')
            else Some (Some (Wrap e (''Walk '' @ basedir)), tr'))"
  using assms by (simp add: IsNotExist_def errors_Wrap_def)

lemma List_loop_visitor_error:
  assumes "Step env walker tr = (True, w', tr')" and "i_err (cur w') = None"
    and "i_path (cur w') \<noteq> basedir" and "IsRegular (i_info (cur w'))"
    and "ctx_Err env tr' = None"
    and "reply env tr' (Visit (path_Base env (i_path (cur w'))) (Size (i_info (cur w')))) = Some e"
  shows "List_loop (Suc k) env basedir subdirs walker tr =
           Some (Some e, tr' @ [Visit (path_Base env (i_path (cur w'))) (Size (i_info (cur w')))])"
proof -
  have "\<not> IsDir (i_info (cur w'))"
    using assms(4) by (cases "i_info (cur w')" rule: IsRegular.cases) auto
  then show ?thesis using assms by (simp add: rpc_def Let_def)
qed

lemma List_base_missing:
  assumes "clientError r = None" and "errors_Is e ErrNotExist"
  shows "List_op (Suc k) r env t (Inl e) tr = Some (None, tr @ [Lstat (fst (Basedir (layout r) t))])"
  using assms
  by (simp add: List_op_def Walk_def Step_def IsNotExist_def Let_def split: prod.splits)

text \<open>
  Claim C6 says that every walk error other than the missing base directory stops
  \<open>List\<close> and is propagated, and the comment of \<open>List\<close> (lines 466 and 467) says that
  it runs the visitor for each file and returns the error when one occurs.  The code
  returns nil at a not-found error of any directory of the walk (lines 481 to 485, logged
  as \<open>ignoring non-existing directory\<close>), which ends the listing instead of skipping the
  directory.  So when the base directory exists and the first entry that it lists is a
  subdirectory whose \<open>ReadDir\<close> fails with not-found, in a category with
  subdirectories, \<open>List\<close> returns nil after the three calls of the walk and has not
  invoked the visitor, whatever the base directory lists after that entry.
\<close>

theorem List_vanished_subdir:
  "clientError r = None \<and> Basedir (layout r) t = (basedir, True) \<and> errors_Is e ErrNotExist
     \<and> path_Join env basedir n \<noteq> basedir
   \<longrightarrow> List_op (Suc (Suc (Suc k))) r env t (Inr (RDir d (Entries (RDir n (ReadDirErr e) # rest)))) tr
         = Some (None, tr @ [Lstat basedir, ReadDir basedir, ReadDir (path_Join env basedir n)])"
  by (simp add: List_op_def Walk_def Step_def IsNotExist_def Let_def)

text \<open>
  The data directory with the vanished subdirectory before its two files: \<open>List\<close>
  returns nil and neither file is visited.  With the vanished subdirectory between the two
  files, the first file is visited and the second is not, and \<open>List\<close> returns nil.
\<close>

theorem List_vanished_subdir_witness:
  "List_op 3 example_backend env_ok PackFile vanished_first [] =
     Some (None, [Lstat ''/repo/data'', ReadDir ''/repo/data'', ReadDir ''/repo/data/00''])
   \<and> List_op 10 example_backend env_ok PackFile vanished_subdir [] =
     Some (None, [Lstat ''/repo/data'', ReadDir ''/repo/data'', Visit ''ab'' 5, ReadDir ''/repo/data/00''])"
proof -
  have b: "Basedir (layout example_backend) PackFile = (''/repo/data'', True)"
    by (simp add: example_backend_def example_layout_def)
  have pj: "path_Join env_ok = (\<lambda>a b. a @ ''/'' @ b)"
    by (simp add: env_ok_def)
  have "List_op (Suc (Suc (Suc 0))) example_backend env_ok PackFile
          (Inr (RDir ''data'' (Entries (RDir ''00'' (ReadDirErr ErrNotExist) # [RFile ''ab'' 5, RFile ''cd'' 7])))) []
        = Some (None, [] @ [Lstat ''/repo/data'', ReadDir ''/repo/data'', ReadDir (path_Join env_ok ''/repo/data'' ''00'')])"
    by (rule List_vanished_subdir [rule_format]) (simp add: example_clientError b pj)
  then have 1: "List_op 3 example_backend env_ok PackFile vanished_first [] =
     Some (None, [Lstat ''/repo/data'', ReadDir ''/repo/data'', ReadDir ''/repo/data/00''])"
    by (simp add: vanished_first_def pj numeral_3_eq_3)
  have 2: "List_op 10 example_backend env_ok PackFile vanished_subdir [] =
     Some (None, [Lstat ''/repo/data'', ReadDir ''/repo/data'', Visit ''ab'' 5, ReadDir ''/repo/data/00''])"
    by (simp add: List_op_def clientError_def example_backend_def example_layout_def env_ok_def
      vanished_subdir_def Walk_def Step_def SkipDir_def rpc_def Let_def IsNotExist_def
      numeral_nat)
  from 1 2 show ?thesis by simp
qed

subsection \<open>Delete\<close>












end
